theory Spec2Isabelle
  imports Main "HOL-Library.Word" "HOL-Library.Char_ord" "HOL-Library.List_Lexorder"
begin

unbundle bit_operations_syntax

section \<open>Errors\<close>

text \<open>
  Every \<^verbatim>\<open>throw Error(...)\<close>, failed \<^verbatim>\<open>assert\<close> and failing system call of the two
  source files is a value of this type. The source throws the one class \<^verbatim>\<open>Error\<close> (and its
  subclasses \<^verbatim>\<open>ExecError\<close>, \<^verbatim>\<open>UnimplementedError\<close>, \<^verbatim>\<open>BadURL\<close>) with a message; the
  constructors name the message, following the taxonomy of the specification.
\<close>

datatype exit_status = Exited nat | Signaled

datatype error =
    AccessDenied string          \<comment> \<open>"access to path '%s' is not allowed"\<close>
  | NotFound string              \<comment> \<open>"file '%s' does not exist", "directory '%s' does not exist"\<close>
  | Unimplemented string         \<comment> \<open>UnimplementedError\<close>
  | UnsupportedFileType string   \<comment> \<open>"file '%s' has an unsupported type"\<close>
  | NotAbsolute string           \<comment> \<open>canonPath: "not an absolute path"\<close>
  | AssertionFailure             \<comment> \<open>a failed assert\<close>
  | SysError string              \<comment> \<open>a failing call of the operating system\<close>
  | ZipError string              \<comment> \<open>a failing call of libzip\<close>
  | ExecError exit_status        \<comment> \<open>runProgram: the program ended with a status other than 0\<close>
  | BadURL string
  | BadHash string
  | MissingAttr string           \<comment> \<open>getIntAttr, getStrAttr: attribute missing or of the wrong type\<close>
  | DirtyTreeRejected string     \<comment> \<open>"Git tree '%s' is dirty"\<close>
  | ShallowMismatch string       \<comment> \<open>"'%s' is a shallow Git repository, but a non-shallow repository is needed"\<close>
  | RevisionNotFound string      \<comment> \<open>"Cannot find Git revision '%s' in ref '%s' of repository '%s'!"\<close>
  | StoreError string            \<comment> \<open>a failure of the store or of unpacking\<close>
  | NameCollision string string  \<comment> \<open>"file name collision in between '%s' and '%s'"\<close>
  | InvalidNumber string         \<comment> \<open>std::stoull on something that is not a number\<close>

section \<open>Paths (libutil helpers used by the accessors)\<close>

definition hasPrefix :: "string \<Rightarrow> string \<Rightarrow> bool" where
  "hasPrefix s pre = (take (length pre) s = pre)"

definition hasSuffix :: "string \<Rightarrow> string \<Rightarrow> bool" where
  "hasSuffix s suf = (length suf \<le> length s \<and> drop (length s - length suf) s = suf)"

text \<open>
  Modelled from the spec: \<^verbatim>\<open>isInDir\<close> and \<^verbatim>\<open>isDirOrInDir\<close> live in libutil, which is not
  among the sources. The specification needs "equal or nested under": a path is in a
  directory when it starts with the directory's path followed by a slash and at least one
  more character.
\<close>

definition isInDir :: "string \<Rightarrow> string \<Rightarrow> bool" where
  "isInDir path dir =
     (take 1 path = ''/''
      \<and> take (length dir) path = dir
      \<and> length dir + 2 \<le> length path
      \<and> path ! length dir = CHR ''/'')"

definition isDirOrInDir :: "string \<Rightarrow> string \<Rightarrow> bool" where
  "isDirOrInDir path dir = (path = dir \<or> isInDir path dir)"

text \<open>
  Modelled from the spec: \<^verbatim>\<open>canonPath\<close> lives in libutil, which is not among the sources.
  The specification says that every operation "canonicalizes the requested path" and that
  \<^verbatim>\<open>/../outside\<close> under the root \<^verbatim>\<open>/R\<close> resolves outside the root: the canonical form is
  lexical. Runs of slashes collapse, a component \<^verbatim>\<open>.\<close> is dropped, a component \<^verbatim>\<open>..\<close>
  removes the component before it (none at the top), and the result of no components is
  \<^verbatim>\<open>/\<close>. An empty path fails an assertion, a path that does not start with a slash is an
  error.
\<close>

fun splitOn :: "char \<Rightarrow> string \<Rightarrow> string \<Rightarrow> string list" where
  "splitOn sep cur [] = (if cur = [] then [] else [cur])"
| "splitOn sep cur (c # cs) =
     (if c = sep
      then (if cur = [] then splitOn sep [] cs else cur # splitOn sep [] cs)
      else splitOn sep (cur @ [c]) cs)"

fun canonStep :: "string list \<Rightarrow> string \<Rightarrow> string list" where
  "canonStep s name =
     (if name = ''.'' then s
      else if name = ''..'' then butlast s
      else s @ [name])"

definition joinPath :: "string list \<Rightarrow> string" where
  "joinPath s = (if s = [] then ''/'' else concat (map (\<lambda>c. ''/'' @ c) s))"

definition canonPath :: "string \<Rightarrow> error + string" where
  "canonPath path =
     (if path = [] then Inl AssertionFailure
      else if hd path \<noteq> CHR ''/'' then Inl (NotAbsolute path)
      else Inr (joinPath (foldl canonStep [] (splitOn (CHR ''/'') [] path))))"

section \<open>The accessor interface\<close>

text \<open>\<^verbatim>\<open>InputAccessor::Type\<close> and \<^verbatim>\<open>InputAccessor::Stat\<close>.\<close>

datatype ftype = tRegular | tSymlink | tDirectory | tMisc

record Stat =
  type :: ftype
  isExecutable :: bool

text \<open>
  \<^verbatim>\<open>DirEntries\<close> is a \<^verbatim>\<open>std::map\<close> from names to optional types: an association list
  whose keys are strictly increasing. \<^verbatim>\<open>emplace\<close> inserts a key that is not there yet and
  leaves the map alone otherwise.
\<close>

type_synonym DirEntries = "(string \<times> ftype option) list"

fun emplace :: "'k::linorder \<Rightarrow> 'v \<Rightarrow> ('k \<times> 'v) list \<Rightarrow> ('k \<times> 'v) list" where
  "emplace k v [] = [(k, v)]"
| "emplace k v ((k', v') # m) =
     (if k < k' then (k, v) # (k', v') # m
      else if k = k' then (k', v') # m
      else (k', v') # emplace k v m)"

text \<open>The five virtual operations of \<^verbatim>\<open>InputAccessor\<close>.\<close>

record accessor =
  readFile :: "string \<Rightarrow> error + string"
  pathExists :: "string \<Rightarrow> error + bool"
  lstat :: "string \<Rightarrow> error + Stat"
  readDirectory :: "string \<Rightarrow> error + DirEntries"
  readLink :: "string \<Rightarrow> error + string"

section \<open>FSInputAccessor\<close>

text \<open>
  The file system under the accessor: what \<^verbatim>\<open>nix::readFile\<close>, \<^verbatim>\<open>nix::pathExists\<close>,
  \<^verbatim>\<open>nix::lstat\<close>, \<^verbatim>\<open>nix::readDirectory\<close> and \<^verbatim>\<open>nix::readLink\<close> answer for an absolute
  path. \<^verbatim>\<open>nix::lstat\<close> gives the mode word \<^verbatim>\<open>st_mode\<close>; \<^verbatim>\<open>nix::readDirectory\<close> gives the
  entries in the order the file system iterates them, each with its \<^verbatim>\<open>d_type\<close>.
\<close>

datatype d_type = DT_REG | DT_LNK | DT_DIR | DT_UNKNOWN

record filesystem =
  fs_readFile :: "string \<Rightarrow> error + string"
  fs_pathExists :: "string \<Rightarrow> bool"
  fs_lstat :: "string \<Rightarrow> error + 32 word"
  fs_readDirectory :: "string \<Rightarrow> error + (string \<times> d_type) list"
  fs_readLink :: "string \<Rightarrow> error + string"

text \<open>The POSIX mode bits behind \<^verbatim>\<open>S_ISREG\<close>, \<^verbatim>\<open>S_ISDIR\<close>, \<^verbatim>\<open>S_ISLNK\<close> and \<^verbatim>\<open>S_IXUSR\<close>.\<close>

definition S_IFMT :: "32 word" where "S_IFMT = 0xF000"
definition S_IFREG :: "32 word" where "S_IFREG = 0x8000"
definition S_IFDIR :: "32 word" where "S_IFDIR = 0x4000"
definition S_IFLNK :: "32 word" where "S_IFLNK = 0xA000"
definition S_IXUSR :: "32 word" where "S_IXUSR = 0x40"

definition S_ISREG :: "32 word \<Rightarrow> bool" where "S_ISREG m = (m AND S_IFMT = S_IFREG)"
definition S_ISDIR :: "32 word \<Rightarrow> bool" where "S_ISDIR m = (m AND S_IFMT = S_IFDIR)"
definition S_ISLNK :: "32 word \<Rightarrow> bool" where "S_ISLNK m = (m AND S_IFMT = S_IFLNK)"

text \<open>
  \<^verbatim>\<open>PathSet\<close> is a \<^verbatim>\<open>std::set\<close> of strings: a list in strictly increasing order.
  \<^verbatim>\<open>lower_bound\<close> gives the first element that is not less than the key.
\<close>

fun lower_bound :: "'k::linorder \<Rightarrow> 'k list \<Rightarrow> 'k option" where
  "lower_bound k [] = None"
| "lower_bound k (x # xs) = (if x < k then lower_bound k xs else Some x)"

record FSInputAccessor =
  root :: string
  allowedPaths :: "string list option"

text \<open>
  The constructor asserts that no allowed path starts or ends with a slash.
\<close>

definition makeFSInputAccessor :: "string \<Rightarrow> string list option \<Rightarrow> error + FSInputAccessor" where
  "makeFSInputAccessor r allowed =
     (case allowed of
        None \<Rightarrow> Inr \<lparr>root = r, allowedPaths = None\<rparr>
      | Some ps \<Rightarrow>
          if list_all (\<lambda>p. \<not> hasPrefix p ''/'' \<and> \<not> hasSuffix p ''/'') ps
          then Inr \<lparr>root = r, allowedPaths = Some ps\<rparr>
          else Inl AssertionFailure)"

definition makeAbsPath :: "FSInputAccessor \<Rightarrow> string \<Rightarrow> error + string" where
  "makeAbsPath a path =
     (if \<not> hasPrefix path ''/'' then Inl AssertionFailure
      else canonPath (root a @ path))"

definition isAllowed :: "FSInputAccessor \<Rightarrow> string \<Rightarrow> bool" where
  "isAllowed a absPath =
     (if \<not> isDirOrInDir absPath (root a) then False
      else case allowedPaths a of
        None \<Rightarrow> True
      | Some allowed \<Rightarrow>
          let subPath = drop (length (root a)) absPath;
              subPath = (if hasPrefix subPath ''/'' then drop 1 subPath else subPath)
          in if subPath \<noteq> ''''
             then (case lower_bound subPath allowed of
                     None \<Rightarrow> False
                   | Some lb \<Rightarrow> isDirOrInDir (''/'' @ lb) (''/'' @ subPath))
             else True)"

definition checkAllowed :: "FSInputAccessor \<Rightarrow> string \<Rightarrow> error + unit" where
  "checkAllowed a absPath =
     (if \<not> isAllowed a absPath then Inl (AccessDenied absPath) else Inr ())"

definition FS_readFile :: "FSInputAccessor \<Rightarrow> filesystem \<Rightarrow> string \<Rightarrow> error + string" where
  "FS_readFile a fs path =
     (case makeAbsPath a path of
        Inl e \<Rightarrow> Inl e
      | Inr absPath \<Rightarrow>
          (case checkAllowed a absPath of
             Inl e \<Rightarrow> Inl e
           | Inr _ \<Rightarrow> fs_readFile fs absPath))"

definition FS_pathExists :: "FSInputAccessor \<Rightarrow> filesystem \<Rightarrow> string \<Rightarrow> error + bool" where
  "FS_pathExists a fs path =
     (case makeAbsPath a path of
        Inl e \<Rightarrow> Inl e
      | Inr absPath \<Rightarrow> Inr (isAllowed a absPath \<and> fs_pathExists fs absPath))"

definition FS_lstat :: "FSInputAccessor \<Rightarrow> filesystem \<Rightarrow> string \<Rightarrow> error + Stat" where
  "FS_lstat a fs path =
     (case makeAbsPath a path of
        Inl e \<Rightarrow> Inl e
      | Inr absPath \<Rightarrow>
          (case checkAllowed a absPath of
             Inl e \<Rightarrow> Inl e
           | Inr _ \<Rightarrow>
               (case fs_lstat fs absPath of
                  Inl e \<Rightarrow> Inl e
                | Inr st_mode \<Rightarrow>
                    Inr \<lparr>type =
                           (if S_ISREG st_mode then tRegular
                            else if S_ISDIR st_mode then tDirectory
                            else if S_ISLNK st_mode then tSymlink
                            else tMisc),
                         isExecutable = (S_ISREG st_mode \<and> st_mode AND S_IXUSR \<noteq> 0)\<rparr>)))"

fun FS_readDirectory_loop ::
  "FSInputAccessor \<Rightarrow> string \<Rightarrow> (string \<times> d_type) list \<Rightarrow> DirEntries \<Rightarrow> DirEntries" where
  "FS_readDirectory_loop a absPath [] res = res"
| "FS_readDirectory_loop a absPath ((name, t) # entries) res =
     (let type = (case t of
                    DT_REG \<Rightarrow> Some tRegular
                  | DT_LNK \<Rightarrow> Some tSymlink
                  | DT_DIR \<Rightarrow> Some tDirectory
                  | DT_UNKNOWN \<Rightarrow> None)
      in FS_readDirectory_loop a absPath entries
           (if isAllowed a (absPath @ ''/'' @ name) then emplace name type res else res))"

definition FS_readDirectory :: "FSInputAccessor \<Rightarrow> filesystem \<Rightarrow> string \<Rightarrow> error + DirEntries" where
  "FS_readDirectory a fs path =
     (case makeAbsPath a path of
        Inl e \<Rightarrow> Inl e
      | Inr absPath \<Rightarrow>
          (case checkAllowed a absPath of
             Inl e \<Rightarrow> Inl e
           | Inr _ \<Rightarrow>
               (case fs_readDirectory fs absPath of
                  Inl e \<Rightarrow> Inl e
                | Inr entries \<Rightarrow> Inr (FS_readDirectory_loop a absPath entries []))))"

definition FS_readLink :: "FSInputAccessor \<Rightarrow> filesystem \<Rightarrow> string \<Rightarrow> error + string" where
  "FS_readLink a fs path =
     (case makeAbsPath a path of
        Inl e \<Rightarrow> Inl e
      | Inr absPath \<Rightarrow>
          (case checkAllowed a absPath of
             Inl e \<Rightarrow> Inl e
           | Inr _ \<Rightarrow> fs_readLink fs absPath))"

definition FSAccessor :: "FSInputAccessor \<Rightarrow> filesystem \<Rightarrow> accessor" where
  "FSAccessor a fs =
     \<lparr>readFile = FS_readFile a fs,
      pathExists = FS_pathExists a fs,
      lstat = FS_lstat a fs,
      readDirectory = FS_readDirectory a fs,
      readLink = FS_readLink a fs\<rparr>"

section \<open>InputAccessor::dumpPath\<close>

text \<open>
  Modelled from the spec: the sink's wire format (serialise.hh) is not among the sources.
  A number is written as eight bytes, least significant first; a string as its length,
  its bytes and zero bytes up to the next multiple of eight ("padded to the next 8-byte
  boundary").
\<close>

fun bytesLE :: "nat \<Rightarrow> nat \<Rightarrow> string" where
  "bytesLE 0 n = []"
| "bytesLE (Suc k) n = char_of (n mod 256) # bytesLE k (n div 256)"

definition writeLongLong :: "nat \<Rightarrow> string" where
  "writeLongLong n = bytesLE 8 n"

definition writePadding :: "nat \<Rightarrow> string" where
  "writePadding len = (if len mod 8 \<noteq> 0 then replicate (8 - len mod 8) (CHR 0x00) else [])"

definition writeString :: "string \<Rightarrow> string" where
  "writeString s = writeLongLong (length s) @ s @ writePadding (length s)"

definition narVersionMagic1 :: string where
  "narVersionMagic1 = ''nix-archive-1''"

definition caseHackSuffix :: string where
  "caseHackSuffix = ''~nix~case~hack~''"

text \<open>
  The state of one run of \<^verbatim>\<open>dumpPath\<close>: the bytes written to the sink so far, and two
  logs the source does not keep: the arguments the filter was called with, and the paths
  \<^verbatim>\<open>dump\<close> was entered with.
\<close>

record dump_state =
  sink :: string
  filterCalls :: "string list"
  visited :: "string list"

definition put :: "string \<Rightarrow> dump_state \<Rightarrow> dump_state" where
  "put s st = st\<lparr>sink := sink st @ writeString s\<rparr>"

text \<open>\<^verbatim>\<open>std::string::find\<close>: the position of the first occurrence.\<close>

fun findSub :: "string \<Rightarrow> string \<Rightarrow> nat option" where
  "findSub [] pat = (if pat = [] then Some 0 else None)"
| "findSub (c # cs) pat =
     (if take (length pat) (c # cs) = pat then Some 0 else map_option Suc (findSub cs pat))"

text \<open>
  The loop that fills \<^verbatim>\<open>unhacked\<close>. Its first branch, which removes the case-hack suffix
  and checks for a name collision, is guarded by the constant \<^verbatim>\<open>false\<close> in the source
  (\<^verbatim>\<open>/* archiveSettings.useCaseHack */ false\<close>).
\<close>

definition useCaseHack :: bool where
  "useCaseHack = False"

fun unhack :: "string \<Rightarrow> DirEntries \<Rightarrow> (string \<times> string) list \<Rightarrow> error + (string \<times> string) list" where
  "unhack path [] unhacked = Inr unhacked"
| "unhack path ((first, _) # entries) unhacked =
     (if useCaseHack
      then (let name = (case findSub first caseHackSuffix of
                          None \<Rightarrow> first
                        | Some pos \<Rightarrow> take pos first)
            in case map_of unhacked name of
                 Some other \<Rightarrow> Inl (NameCollision (path @ ''/'' @ other) (path @ ''/'' @ first))
               | None \<Rightarrow> unhack path entries (emplace name first unhacked))
      else unhack path entries (emplace first first unhacked))"

text \<open>
  \<^verbatim>\<open>dump\<close> recurses over whatever the accessor answers, so the model bounds the depth of
  the recursion: the result \<open>None\<close> says that the bound was reached, with the state at
  that moment. \<^verbatim>\<open>checkInterrupt\<close> is left out.
\<close>

fun dump :: "nat \<Rightarrow> accessor \<Rightarrow> (string \<Rightarrow> bool) \<Rightarrow> string \<Rightarrow> dump_state
    \<Rightarrow> (error + unit) option \<times> dump_state"
and dumpEntries :: "nat \<Rightarrow> accessor \<Rightarrow> (string \<Rightarrow> bool) \<Rightarrow> string \<Rightarrow> (string \<times> string) list
    \<Rightarrow> dump_state \<Rightarrow> (error + unit) option \<times> dump_state" where
  "dump 0 acc include path st = (None, st)"
| "dump (Suc n) acc include path st0 =
     (let st = st0\<lparr>visited := visited st0 @ [path]\<rparr> in
      case lstat acc path of
        Inl e \<Rightarrow> (Some (Inl e), st)
      | Inr s \<Rightarrow>
          (let st = put ''('' st in
           if type s = tRegular then
             (let st = put ''regular'' (put ''type'' st);
                  st = (if isExecutable s then put [] (put ''executable'' st) else st)
              in case readFile acc path of
                   Inl e \<Rightarrow> (Some (Inl e), st)
                 | Inr c \<Rightarrow>
                     (let st = put ''contents'' st;
                          st = st\<lparr>sink := sink st @ writeLongLong (length c)\<rparr>;
                          st = st\<lparr>sink := sink st @ c\<rparr>;
                          st = st\<lparr>sink := sink st @ writePadding (length c)\<rparr>
                      in (Some (Inr ()), put '')'' st)))
           else if type s = tDirectory then
             (let st = put ''directory'' (put ''type'' st)
              in case readDirectory acc path of
                   Inl e \<Rightarrow> (Some (Inl e), st)
                 | Inr entries \<Rightarrow>
                     (case unhack path entries [] of
                        Inl e \<Rightarrow> (Some (Inl e), st)
                      | Inr unhacked \<Rightarrow>
                          (case dumpEntries n acc include path unhacked st of
                             (Some (Inr _), st) \<Rightarrow> (Some (Inr ()), put '')'' st)
                           | r \<Rightarrow> r)))
           else if type s = tSymlink then
             (let st = put ''target'' (put ''symlink'' (put ''type'' st))
              in case readLink acc path of
                   Inl e \<Rightarrow> (Some (Inl e), st)
                 | Inr target \<Rightarrow> (Some (Inr ()), put '')'' (put target st)))
           else (Some (Inl (UnsupportedFileType path)), st)))"
| "dumpEntries n acc include path [] st = (Some (Inr ()), st)"
| "dumpEntries n acc include path ((first, second) # rest) st0 =
     (let st = st0\<lparr>filterCalls := filterCalls st0 @ [path @ ''/'' @ first]\<rparr> in
      if include (path @ ''/'' @ first) then
        (let st = put ''node'' (put first (put ''name'' (put ''('' (put ''entry'' st))))
         in case dump n acc include (path @ ''/'' @ second) st of
              (Some (Inr _), st) \<Rightarrow> dumpEntries n acc include path rest (put '')'' st)
            | r \<Rightarrow> r)
      else dumpEntries n acc include path rest st)"

definition dumpPath :: "nat \<Rightarrow> accessor \<Rightarrow> string \<Rightarrow> (string \<Rightarrow> bool)
    \<Rightarrow> (error + unit) option \<times> dump_state" where
  "dumpPath fuel acc path include =
     dump fuel acc include path
       \<lparr>sink = writeString narVersionMagic1, filterCalls = [], visited = []\<rparr>"

section \<open>ZipInputAccessor\<close>

text \<open>
  What libzip answers for an open archive: the entries of the central directory by index
  (\<^verbatim>\<open>zip_stat_index\<close>, which can fail) and the external attributes of an entry
  (\<^verbatim>\<open>zip_file_get_external_attributes\<close>, which can fail): the operating system byte and
  the 32-bit attribute word.
\<close>

record zip_stat =
  zs_name :: string
  zs_index :: nat
  zs_size :: nat

record zip =
  zip_stat_index :: "zip_stat option list"
  zip_file_get_external_attributes :: "nat \<Rightarrow> (8 word \<times> 32 word) option"

definition ZIP_OPSYS_UNIX :: "8 word" where
  "ZIP_OPSYS_UNIX = 3"

record ZipInputAccessor =
  zipFile :: zip
  members :: "(string \<times> zip_stat) list"

text \<open>
  The constructor reads the index and keys every entry by its name from the first slash
  on; an entry without a slash is skipped.
\<close>

fun ZipInputAccessor_loop :: "zip_stat option list \<Rightarrow> (string \<times> zip_stat) list
    \<Rightarrow> error + (string \<times> zip_stat) list" where
  "ZipInputAccessor_loop [] m = Inr m"
| "ZipInputAccessor_loop (None # rest) m = Inl (ZipError ''could not stat archive member'')"
| "ZipInputAccessor_loop (Some sb # rest) m =
     (let slash = dropWhile (\<lambda>c. c \<noteq> CHR ''/'') (zs_name sb)
      in if slash = [] then ZipInputAccessor_loop rest m
         else ZipInputAccessor_loop rest (emplace slash sb m))"

definition makeZipInputAccessor :: "zip \<Rightarrow> error + ZipInputAccessor" where
  "makeZipInputAccessor z =
     (case ZipInputAccessor_loop (zip_stat_index z) [] of
        Inl e \<Rightarrow> Inl e
      | Inr m \<Rightarrow> Inr \<lparr>zipFile = z, members = m\<rparr>)"

definition ZIP_pathExists :: "ZipInputAccessor \<Rightarrow> string \<Rightarrow> error + bool" where
  "ZIP_pathExists a path0 =
     (case canonPath path0 of
        Inl e \<Rightarrow> Inl e
      | Inr path \<Rightarrow> Inr (map_of (members a) path \<noteq> None))"

text \<open>
  \<^verbatim>\<open>lstat\<close>. The function declares \<^verbatim>\<open>Type type = tRegular\<close> at its top, and inside
  \<^verbatim>\<open>case ZIP_OPSYS_UNIX:\<close> a second variable \<^verbatim>\<open>auto type = (attributes >> 16) & 0770000\<close>
  that hides the first up to the end of the \<^verbatim>\<open>switch\<close>. The assignments
  \<^verbatim>\<open>type = tDirectory\<close>, \<^verbatim>\<open>type = tRegular\<close> and \<^verbatim>\<open>type = tSymlink\<close> of the inner
  \<^verbatim>\<open>switch\<close> therefore write the inner variable (\<open>type'\<close> below, whose last value nothing
  reads), and the \<^verbatim>\<open>Stat\<close> returned holds the outer one: \<^verbatim>\<open>tRegular\<close> for a member found
  under the path itself, \<^verbatim>\<open>tDirectory\<close> for one found under the path with a slash added.
  \<^verbatim>\<open>isExecutable\<close> is not hidden and is assigned as written. The octal constants of the
  source are written in decimal: 0770000 is 258048, 0040000 is 16384, 0100000 is 32768,
  0120000 is 40960 and 0000100 is 64.
\<close>

definition ZIP_lstat :: "ZipInputAccessor \<Rightarrow> string \<Rightarrow> error + Stat" where
  "ZIP_lstat a path0 =
     (case canonPath path0 of
        Inl e \<Rightarrow> Inl e
      | Inr path \<Rightarrow>
          (let (i, type0) =
                 (case map_of (members a) path of
                    Some m \<Rightarrow> (Some m, tRegular)
                  | None \<Rightarrow> (map_of (members a) (path @ ''/''), tDirectory))
           in case i of
                None \<Rightarrow> Inl (NotFound path)
              | Some m \<Rightarrow>
                  (case zip_file_get_external_attributes (zipFile a) (zs_index m) of
                     None \<Rightarrow> Inl (ZipError ''could not get external attributes'')
                   | Some (opsys, attributes) \<Rightarrow>
                       if opsys = ZIP_OPSYS_UNIX then
                         (let type' = drop_bit 16 attributes AND 258048 in
                          if type' = 16384 then
                            Inr \<lparr>type = type0, isExecutable = False\<rparr>
                          else if type' = 32768 then
                            Inr \<lparr>type = type0,
                                 isExecutable = (drop_bit 16 attributes AND 64 \<noteq> 0)\<rparr>
                          else if type' = 40960 then
                            Inr \<lparr>type = type0, isExecutable = False\<rparr>
                          else Inl (UnsupportedFileType path))
                       else Inr \<lparr>type = type0, isExecutable = False\<rparr>)))"

section \<open>The Git input scheme: data\<close>

text \<open>
  \<^verbatim>\<open>Attr\<close> is a variant of a string, an unsigned 64-bit number and a boolean; \<^verbatim>\<open>Attrs\<close> is a
  \<^verbatim>\<open>std::map\<close> from names to them, an association list with increasing keys. The cache
  is keyed by such maps and stores such maps.
\<close>

datatype attr = AString string | AInt nat | ABool bool

type_synonym Attrs = "(string \<times> attr) list"

fun insert_or_assign :: "'k::linorder \<Rightarrow> 'v \<Rightarrow> ('k \<times> 'v) list \<Rightarrow> ('k \<times> 'v) list" where
  "insert_or_assign k v [] = [(k, v)]"
| "insert_or_assign k v ((k', v') # m) =
     (if k < k' then (k, v) # (k', v') # m
      else if k = k' then (k, v) # m
      else (k', v') # insert_or_assign k v m)"

definition getIntAttr :: "Attrs \<Rightarrow> string \<Rightarrow> error + nat" where
  "getIntAttr attrs name =
     (case map_of attrs name of Some (AInt n) \<Rightarrow> Inr n | _ \<Rightarrow> Inl (MissingAttr name))"

definition getStrAttr :: "Attrs \<Rightarrow> string \<Rightarrow> error + string" where
  "getStrAttr attrs name =
     (case map_of attrs name of Some (AString s) \<Rightarrow> Inr s | _ \<Rightarrow> Inl (MissingAttr name))"

text \<open>
  \<^verbatim>\<open>Input\<close>: the attributes \<^verbatim>\<open>inputFromAttrs\<close> admits, each with the type its getter asks
  for (\<^verbatim>\<open>getStrAttr\<close>, \<^verbatim>\<open>maybeGetStrAttr\<close>, \<^verbatim>\<open>maybeGetBoolAttr\<close>, \<^verbatim>\<open>maybeGetIntAttr\<close>). An absent
  attribute is \<open>None\<close>. A revision is kept as the text \<^verbatim>\<open>gitRev()\<close> prints.
\<close>

record Input =
  attr_url :: string
  attr_ref :: "string option"
  attr_rev :: "string option"
  attr_shallow :: "bool option"
  attr_submodules :: "bool option"
  attr_allRefs :: "bool option"
  attr_lastModified :: "nat option"
  attr_revCount :: "nat option"
  attr_narHash :: "string option"
  attr_name :: "string option"

definition getRef :: "Input \<Rightarrow> string option" where
  "getRef input = attr_ref input"

definition getRev :: "Input \<Rightarrow> string option" where
  "getRev input = attr_rev input"

definition getName :: "Input \<Rightarrow> string" where
  "getName input = (case attr_name input of Some n \<Rightarrow> n | None \<Rightarrow> ''source'')"

definition value_or :: "'a option \<Rightarrow> 'a \<Rightarrow> 'a" where
  "value_or x d = (case x of Some v \<Rightarrow> v | None \<Rightarrow> d)"

record ParsedURL =
  url_scheme :: string
  url_path :: string
  url_base :: string

record RepoInfo =
  shallow :: bool
  submodules :: bool
  allRefs :: bool
  cacheType :: string
  isLocal :: bool
  isDirty :: bool
  hasCommits :: bool
  url :: string

definition gitInitialBranch :: string where
  "gitInitialBranch = ''__nix_dummy_branch''"

section \<open>The world a fetch runs in\<close>

text \<open>
  The files \<^verbatim>\<open>fetch\<close> itself looks at: what exists under a path, with its modification
  time (\<^verbatim>\<open>st_mtime\<close>, read as an unsigned 64-bit number as the comparison in the source
  does) and, for a regular file, its content, for a directory, its entries.
\<close>

datatype fnode = RegularFile string | Dir "string list"

record fileinfo =
  mtime :: "64 word"
  node :: fnode

type_synonym files = "string \<Rightarrow> fileinfo option"

text \<open>The filter handed to \<^verbatim>\<open>addToStore\<close>.\<close>

datatype path_filter =
    trackedFiles "string list"   \<comment> \<open>the lambda of the dirty path, closed over \<^verbatim>\<open>files\<close>\<close>
  | defaultPathFilter
  | isNotDotGitDirectory

text \<open>What a run does to the outside, in order.\<close>

datatype event =
    RunGit "string list"
  | FsPathExists string
  | FsStat string
  | FsReadFile string
  | FsReadDirectory string
  | FsCreateDirs string
  | FsLock string
  | FsUtimes string "64 word"
  | FsCreateTempDir string
  | UnpackTarfile string
  | CacheLookup Attrs
  | CacheAdd Attrs
  | AddToStore string string path_filter
  | Warn string

text \<open>
  Modelled from the spec: the cache (cache.cc) is not among the sources. An entry maps key
  attributes to result attributes and a store path; an immutable entry is valid for ever,
  a mutable one "only while now - storedAt < ttl".
\<close>

record cache_entry =
  infoAttrs :: Attrs
  storePath :: string
  immutable :: bool
  storedAt :: "64 word"

record world =
  files :: files
  cache :: "Attrs \<Rightarrow> cache_entry option"
  trace :: "event list"

text \<open>
  Everything a call reads but does not change: the settings, the clock (\<^verbatim>\<open>time(0)\<close>), the
  library functions that are not among the sources (\<^verbatim>\<open>parseURL\<close>, \<^verbatim>\<open>Hash::parseAny\<close>
  followed by \<^verbatim>\<open>gitRev\<close>, \<^verbatim>\<open>std::stoull\<close>, the cache directory for a URL, the names
  \<^verbatim>\<open>createTempDir\<close> hands out), and what the programs outside answer: \<^verbatim>\<open>git\<close> for an argument
  list (the flag says whether standard error is merged into the output), the store for
  \<^verbatim>\<open>addToStore\<close>, and \<^verbatim>\<open>unpackTarfile\<close>. Each answer may depend on the files and change
  them. A program that could not be run at all is an error other than \<^verbatim>\<open>ExecError\<close>.
\<close>

record env =
  tarballTtl :: "32 word"
  allowDirty :: bool
  warnDirty :: bool
  forceHttp :: bool
  now :: "64 word"
  parseURL :: "string \<Rightarrow> ParsedURL option"
  parseAny :: "string \<Rightarrow> string option"
  stoull :: "string \<Rightarrow> nat option"
  cacheDirOf :: "string \<Rightarrow> string"
  tmpDirName :: string
  tmpGitDirName :: string
  git :: "bool \<Rightarrow> string list \<Rightarrow> files \<Rightarrow> (error + exit_status \<times> string) \<times> files"
  storeAdd :: "string \<Rightarrow> string \<Rightarrow> path_filter \<Rightarrow> files \<Rightarrow> error + string"
  unpack :: "string \<Rightarrow> string \<Rightarrow> files \<Rightarrow> error + files"

subsection \<open>Primitive steps\<close>

definition logEvent :: "event \<Rightarrow> world \<Rightarrow> world" where
  "logEvent ev w = w\<lparr>trace := trace w @ [ev]\<rparr>"

text \<open>\<^verbatim>\<open>runProgram("git", true, args)\<close>: the output, or \<^verbatim>\<open>ExecError\<close> for a status other than 0.\<close>

definition runProgram :: "env \<Rightarrow> string list \<Rightarrow> world \<Rightarrow> (error + string) \<times> world" where
  "runProgram env args w =
     (case git env False args (files w) of
        (r, fs) \<Rightarrow>
          (let w' = logEvent (RunGit args) (w\<lparr>files := fs\<rparr>)
           in case r of
                Inl e \<Rightarrow> (Inl e, w')
              | Inr (status, out) \<Rightarrow>
                  if status = Exited 0 then (Inr out, w') else (Inl (ExecError status), w')))"

text \<open>\<^verbatim>\<open>runProgram(RunOptions {...})\<close>: the status and the output, whatever the status.\<close>

definition runProgramOptions :: "env \<Rightarrow> string list \<Rightarrow> world
    \<Rightarrow> (error + exit_status \<times> string) \<times> world" where
  "runProgramOptions env args w =
     (case git env True args (files w) of
        (r, fs) \<Rightarrow> (r, logEvent (RunGit args) (w\<lparr>files := fs\<rparr>)))"

definition fsPathExists :: "string \<Rightarrow> world \<Rightarrow> bool \<times> world" where
  "fsPathExists p w = (files w p \<noteq> None, logEvent (FsPathExists p) w)"

text \<open>\<^verbatim>\<open>stat(p, &st)\<close>: \<open>None\<close> for a result other than 0, otherwise \<^verbatim>\<open>st.st_mtime\<close>.\<close>

definition fsStat :: "string \<Rightarrow> world \<Rightarrow> 64 word option \<times> world" where
  "fsStat p w = (map_option mtime (files w p), logEvent (FsStat p) w)"

definition fsReadFile :: "string \<Rightarrow> world \<Rightarrow> (error + string) \<times> world" where
  "fsReadFile p w =
     (case files w p of
        Some f \<Rightarrow> (case node f of
                     RegularFile c \<Rightarrow> (Inr c, logEvent (FsReadFile p) w)
                   | Dir _ \<Rightarrow> (Inl (SysError p), logEvent (FsReadFile p) w))
      | None \<Rightarrow> (Inl (SysError p), logEvent (FsReadFile p) w))"

definition fsReadDirectory :: "string \<Rightarrow> world \<Rightarrow> (error + string list) \<times> world" where
  "fsReadDirectory p w =
     (case files w p of
        Some f \<Rightarrow> (case node f of
                     Dir names \<Rightarrow> (Inr names, logEvent (FsReadDirectory p) w)
                   | RegularFile _ \<Rightarrow> (Inl (SysError p), logEvent (FsReadDirectory p) w))
      | None \<Rightarrow> (Inl (SysError p), logEvent (FsReadDirectory p) w))"

text \<open>
  \<^verbatim>\<open>utimes(p, times)\<close> with both times \<open>t\<close>. The source ignores its result: on a path
  that does not exist nothing changes.
\<close>

definition fsUtimes :: "string \<Rightarrow> 64 word \<Rightarrow> world \<Rightarrow> world" where
  "fsUtimes p t w =
     logEvent (FsUtimes p t)
       (case files w p of
          None \<Rightarrow> w
        | Some f \<Rightarrow> w\<lparr>files := (files w)(p \<mapsto> f\<lparr>mtime := t\<rparr>)\<rparr>)"

text \<open>
  Modelled from the spec: \<^verbatim>\<open>Cache::lookup\<close> and \<^verbatim>\<open>Cache::add\<close> (cache.cc) are not among the
  sources. A lookup gives the result attributes and the store path of a valid entry; an
  addition stores or replaces the entry under its key, stamped with the time of the call.
\<close>

definition cacheLookup :: "env \<Rightarrow> Attrs \<Rightarrow> world \<Rightarrow> (Attrs \<times> string) option \<times> world" where
  "cacheLookup env key w =
     ((case cache w key of
         None \<Rightarrow> None
       | Some e \<Rightarrow>
           if immutable e \<or> uint (now env) - uint (storedAt e) < uint (tarballTtl env)
           then Some (infoAttrs e, storePath e)
           else None),
      logEvent (CacheLookup key) w)"

definition cacheAdd :: "env \<Rightarrow> Attrs \<Rightarrow> Attrs \<Rightarrow> string \<Rightarrow> bool \<Rightarrow> world \<Rightarrow> world" where
  "cacheAdd env key info sp imm w =
     logEvent (CacheAdd key)
       (w\<lparr>cache := (cache w)(key \<mapsto>
            \<lparr>infoAttrs = info, storePath = sp, immutable = imm, storedAt = now env\<rparr>)\<rparr>)"

definition addToStore :: "env \<Rightarrow> string \<Rightarrow> string \<Rightarrow> path_filter \<Rightarrow> world
    \<Rightarrow> (error + string) \<times> world" where
  "addToStore env name p flt w =
     (storeAdd env name p flt (files w), logEvent (AddToStore name p flt) w)"

definition unpackTarfile :: "env \<Rightarrow> string \<Rightarrow> string \<Rightarrow> world \<Rightarrow> (error + unit) \<times> world" where
  "unpackTarfile env source dir w =
     (case unpack env source dir (files w) of
        Inl e \<Rightarrow> (Inl e, logEvent (UnpackTarfile dir) w)
      | Inr fs \<Rightarrow> (Inr (), logEvent (UnpackTarfile dir) (w\<lparr>files := fs\<rparr>)))"

text \<open>\<^verbatim>\<open>chomp\<close>: the string without its trailing blanks, tabs, newlines and carriage returns.\<close>

definition chomp :: "string \<Rightarrow> string" where
  "chomp s =
     rev (dropWhile (\<lambda>c. c = CHR '' '' \<or> c = CHR 0x0A \<or> c = CHR 0x0D \<or> c = CHR 0x09) (rev s))"

text \<open>\<^verbatim>\<open>stoull\<close> of a program's output.\<close>

definition readNumber :: "env \<Rightarrow> string \<Rightarrow> error + nat" where
  "readNumber env s = (case stoull env s of None \<Rightarrow> Inl (InvalidNumber s) | Some n \<Rightarrow> Inr n)"

text \<open>\<^verbatim>\<open>Hash::parseAny(s, htSHA1).gitRev()\<close>.\<close>

definition parseRev :: "env \<Rightarrow> string \<Rightarrow> error + string" where
  "parseRev env s = (case parseAny env s of None \<Rightarrow> Inl (BadHash s) | Some r \<Rightarrow> Inr r)"

section \<open>GitInputScheme\<close>

text \<open>\<^verbatim>\<open>RepoInfo::checkDirty\<close>.\<close>

definition checkDirty :: "env \<Rightarrow> RepoInfo \<Rightarrow> world \<Rightarrow> (error + unit) \<times> world" where
  "checkDirty env repoInfo w =
     (if isDirty repoInfo then
        (if \<not> allowDirty env then (Inl (DirtyTreeRejected (url repoInfo)), w)
         else if warnDirty env then (Inr (), logEvent (Warn ''Git tree is dirty'') w)
         else (Inr (), w))
      else (Inr (), w))"

text \<open>
  \<^verbatim>\<open>getRepoInfo\<close>. The existence of \<^verbatim>\<open>.git\<close> is probed only for the scheme \<^verbatim>\<open>file\<close>
  (the \<^verbatim>\<open>&&\<close> of the source does not evaluate its right side otherwise).
\<close>

definition getRepoInfo :: "env \<Rightarrow> Input \<Rightarrow> world \<Rightarrow> (error + RepoInfo) \<times> world" where
  "getRepoInfo env input w0 =
     (let shallow0 = value_or (attr_shallow input) False;
          submodules0 = value_or (attr_submodules input) False;
          allRefs0 = value_or (attr_allRefs input) False;
          cacheType0 = ''git'' @ (if shallow0 then ''-shallow'' else '''')
                             @ (if submodules0 then ''-submodules'' else '''')
                             @ (if allRefs0 then ''-all-refs'' else '''')
      in case parseURL env (attr_url input) of
           None \<Rightarrow> (Inl (BadURL (attr_url input)), w0)
         | Some u \<Rightarrow>
             (case (if url_scheme u = ''file''
                    then (case fsPathExists (url_path u @ ''/.git'') w0 of (ex, w) \<Rightarrow> (\<not> ex, w))
                    else (False, w0)) of
                (isBareRepository, w) \<Rightarrow>
                  (let isLocal0 = (url_scheme u = ''file'' \<and> \<not> forceHttp env \<and> \<not> isBareRepository);
                       repoInfo = \<lparr>shallow = shallow0, submodules = submodules0,
                                   allRefs = allRefs0, cacheType = cacheType0,
                                   isLocal = isLocal0, isDirty = False, hasCommits = True,
                                   url = (if isLocal0 then url_path u else url_base u)\<rparr>
                   in if getRef input = None \<and> getRev input = None \<and> isLocal repoInfo then
                        (let repoInfo = repoInfo\<lparr>isDirty := True\<rparr>;
                             gitDir = url repoInfo @ ''/.git''
                         in case runProgram env
                                   [''-C'', url repoInfo, ''rev-parse'', ''--git-common-dir''] w of
                              (Inl e, w) \<Rightarrow> (Inl e, w)
                            | (Inr out, w) \<Rightarrow>
                                (let commonGitDir = chomp out;
                                     gitDir = (if commonGitDir \<noteq> ''.git'' then commonGitDir
                                               else gitDir)
                                 in case fsReadDirectory (gitDir @ ''/refs/heads'') w of
                                      (Inl e, w) \<Rightarrow> (Inl e, w)
                                    | (Inr names, w) \<Rightarrow>
                                        (let repoInfo = repoInfo\<lparr>hasCommits := (names \<noteq> [])\<rparr>
                                         in if hasCommits repoInfo then
                                              (case runProgram env
                                                      [''-C'', url repoInfo, ''diff-index'',
                                                       ''--quiet'', ''HEAD'', ''--''] w of
                                                 (Inr _, w) \<Rightarrow> (Inr (repoInfo\<lparr>isDirty := False\<rparr>), w)
                                               | (Inl (ExecError status), w) \<Rightarrow>
                                                   if status = Exited 1 then (Inr repoInfo, w)
                                                   else (Inl (ExecError status), w)
                                               | (Inl e, w) \<Rightarrow> (Inl e, w))
                                            else (Inr repoInfo, w))))
                      else (Inr repoInfo, w))))"

text \<open>
  \<^verbatim>\<open>listFiles\<close>: the output of \<^verbatim>\<open>git ls-files -z\<close>, cut at the zero bytes, as a
  \<^verbatim>\<open>std::set\<close>.
\<close>

definition listFiles :: "env \<Rightarrow> RepoInfo \<Rightarrow> world \<Rightarrow> (error + string list) \<times> world" where
  "listFiles env repoInfo w =
     (let gitOpts = [''-C'', url repoInfo, ''ls-files'', ''-z'']
                    @ (if submodules repoInfo then [''--recurse-submodules''] else [])
      in case runProgram env gitOpts w of
           (Inl e, w) \<Rightarrow> (Inl e, w)
         | (Inr out, w) \<Rightarrow> (Inr (sort (remdups (splitOn (CHR 0x00) [] out))), w))"

definition readHead :: "env \<Rightarrow> string \<Rightarrow> world \<Rightarrow> (error + string) \<times> world" where
  "readHead env p w =
     (case runProgram env [''-C'', p, ''rev-parse'', ''--abbrev-ref'', ''HEAD''] w of
        (Inl e, w) \<Rightarrow> (Inl e, w)
      | (Inr out, w) \<Rightarrow> (Inr (chomp out), w))"

subsection \<open>The lambdas of fetch\<close>

definition getImmutableAttrs :: "RepoInfo \<Rightarrow> string \<Rightarrow> string \<Rightarrow> Attrs" where
  "getImmutableAttrs repoInfo name gitRev =
     [(''name'', AString name), (''rev'', AString gitRev), (''type'', AString (cacheType repoInfo))]"

definition mutableAttrsOf :: "RepoInfo \<Rightarrow> string \<Rightarrow> string \<Rightarrow> Attrs" where
  "mutableAttrsOf repoInfo name ref =
     [(''name'', AString name), (''ref'', AString ref),
      (''type'', AString (cacheType repoInfo)), (''url'', AString (url repoInfo))]"

text \<open>
  \<^verbatim>\<open>makeResult\<close>; \<open>input0\<close> is the \<^verbatim>\<open>_input\<close> of the source, the request as it came in, and
  \<open>input\<close> the copy \<^verbatim>\<open>fetch\<close> has been completing.
\<close>

definition makeResult :: "RepoInfo \<Rightarrow> Input \<Rightarrow> Input \<Rightarrow> Attrs \<Rightarrow> string
    \<Rightarrow> error + string \<times> Input" where
  "makeResult repoInfo input0 input info sp =
     (if getRev input = None then Inl AssertionFailure
      else if \<not> (getRev input0 = None \<or> getRev input0 = getRev input) then Inl AssertionFailure
      else case (if \<not> shallow repoInfo
                 then (case getIntAttr info ''revCount'' of
                         Inl e \<Rightarrow> Inl e
                       | Inr n \<Rightarrow> Inr (input\<lparr>attr_revCount := Some n\<rparr>))
                 else Inr input) of
             Inl e \<Rightarrow> Inl e
           | Inr input \<Rightarrow>
               (case getIntAttr info ''lastModified'' of
                  Inl e \<Rightarrow> Inl e
                | Inr n \<Rightarrow> Inr (sp, input\<lparr>attr_lastModified := Some n\<rparr>)))"

subsection \<open>The unclean working tree (lines 292 to 322)\<close>

definition fetchDirty :: "env \<Rightarrow> RepoInfo \<Rightarrow> Input \<Rightarrow> world \<Rightarrow> (error + string \<times> Input) \<times> world" where
  "fetchDirty env repoInfo input w0 =
     (case checkDirty env repoInfo w0 of
        (Inl e, w) \<Rightarrow> (Inl e, w)
      | (Inr _, w) \<Rightarrow>
     (case listFiles env repoInfo w of
        (Inl e, w) \<Rightarrow> (Inl e, w)
      | (Inr tracked, w) \<Rightarrow>
     (case addToStore env (getName input) (url repoInfo) (trackedFiles tracked) w of
        (Inl e, w) \<Rightarrow> (Inl e, w)
      | (Inr sp, w) \<Rightarrow>
     (case (if hasCommits repoInfo
            then (case runProgram env [''-C'', url repoInfo, ''log'', ''-1'', ''--format=%ct'',
                                       ''--no-show-signature'', ''HEAD''] w of
                    (Inl e, w) \<Rightarrow> (Inl e, w)
                  | (Inr out, w) \<Rightarrow> (readNumber env out, w))
            else (Inr 0, w)) of
        (Inl e, w) \<Rightarrow> (Inl e, w)
      | (Inr n, w) \<Rightarrow> (Inr (sp, input\<lparr>attr_lastModified := Some n\<rparr>), w)))))"

subsection \<open>Resolving the revision (lines 336 to 430)\<close>

text \<open>
  A block of \<^verbatim>\<open>fetch\<close> ends in one of three ways: an exception, a \<^verbatim>\<open>return\<close> from
  \<^verbatim>\<open>fetch\<close>, or control reaching the end of the block with the values of its variables.
\<close>

datatype ('r, 'a) outcome = Throw error | Return 'r | Next 'a

definition resolveLocal :: "env \<Rightarrow> RepoInfo \<Rightarrow> Input \<Rightarrow> string \<Rightarrow> world
    \<Rightarrow> (error + Input \<times> string \<times> string) \<times> world" where
  "resolveLocal env repoInfo input ref w0 =
     (case getRev input of
        Some gitRev \<Rightarrow> (Inr (input, gitRev, url repoInfo), w0)
      | None \<Rightarrow>
          (case runProgram env [''-C'', url repoInfo, ''rev-parse'', ref] w0 of
             (Inl e, w) \<Rightarrow> (Inl e, w)
           | (Inr out, w) \<Rightarrow>
               (case parseRev env (chomp out) of
                  Inl e \<Rightarrow> (Inl e, w)
                | Inr gitRev \<Rightarrow> (Inr (input\<lparr>attr_rev := Some gitRev\<rparr>, gitRev, url repoInfo), w))))"

definition localRefFileOf :: "string \<Rightarrow> string \<Rightarrow> string" where
  "localRefFileOf cacheDir ref =
     (if take 5 ref = ''refs/'' then cacheDir @ ''/'' @ ref
      else cacheDir @ ''/refs/heads/'' @ ref)"

text \<open>
  Lines 369 to 395: whether to fetch. \<^verbatim>\<open>WIFEXITED\<close> holds of every status \<open>Exited n\<close>.
  The comparison is the source's, in unsigned 64-bit arithmetic: \<^verbatim>\<open>tarballTtl\<close> is an
  \<^verbatim>\<open>unsigned int\<close> widened to 64 bits, and the sum wraps around.
\<close>

definition decideFetch :: "env \<Rightarrow> RepoInfo \<Rightarrow> Input \<Rightarrow> string \<Rightarrow> string \<Rightarrow> world
    \<Rightarrow> (error + bool) \<times> world" where
  "decideFetch env repoInfo input repoDir localRefFile w0 =
     (case getRev input of
        Some gitRev \<Rightarrow>
          (case runProgram env [''-C'', repoDir, ''cat-file'', ''-e'', gitRev] w0 of
             (Inr _, w) \<Rightarrow> (Inr False, w)
           | (Inl (ExecError (Exited n)), w) \<Rightarrow> (Inr True, w)
           | (Inl e, w) \<Rightarrow> (Inl e, w))
      | None \<Rightarrow>
          if allRefs repoInfo then (Inr True, w0)
          else (case fsStat localRefFile w0 of
                  (None, w) \<Rightarrow> (Inr True, w)
                | (Some st_mtime, w) \<Rightarrow>
                    (Inr (st_mtime + ucast (tarballTtl env) \<le> now env), w)))"

text \<open>
  Lines 397 to 424, the body of \<^verbatim>\<open>if (doFetch)\<close>: the fetch from the remote, the handler
  that rethrows when the ref file does not exist and warns otherwise, and \<^verbatim>\<open>utimes\<close>.
\<close>

definition fetchRefOf :: "RepoInfo \<Rightarrow> string \<Rightarrow> string" where
  "fetchRefOf repoInfo ref =
     (if allRefs repoInfo then ''refs/*''
      else if take 5 ref = ''refs/'' then ref
      else if ref = ''HEAD'' then ref
      else ''refs/heads/'' @ ref)"

definition gitFetchArgs :: "RepoInfo \<Rightarrow> string \<Rightarrow> string \<Rightarrow> string list" where
  "gitFetchArgs repoInfo ref repoDir =
     [''-C'', repoDir, ''fetch'', ''--quiet'', ''--force'', ''--'', url repoInfo,
      fetchRefOf repoInfo ref @ '':'' @ fetchRefOf repoInfo ref]"

definition refreshMirror :: "env \<Rightarrow> RepoInfo \<Rightarrow> string \<Rightarrow> string \<Rightarrow> string \<Rightarrow> world
    \<Rightarrow> (error + unit) \<times> world" where
  "refreshMirror env repoInfo ref repoDir localRefFile w0 =
     (case runProgram env (gitFetchArgs repoInfo ref repoDir) w0 of
        (Inr _, w) \<Rightarrow> (Inr (), fsUtimes localRefFile (now env) w)
      | (Inl e, w) \<Rightarrow>
          (case fsPathExists localRefFile w of
             (False, w) \<Rightarrow> (Inl e, w)
           | (True, w) \<Rightarrow>
               (Inr (), fsUtimes localRefFile (now env)
                          (logEvent (Warn ''could not update local clone of Git repository'') w))))"

text \<open>\<^verbatim>\<open>dirOf\<close>: the path up to its last slash.\<close>

definition dirOf :: "string \<Rightarrow> string" where
  "dirOf p =
     (let r = dropWhile (\<lambda>c. c \<noteq> CHR ''/'') (rev p)
      in if r = [] then ''.'' else if length r = 1 then ''/'' else rev (tl r))"

text \<open>
  Lines 354 to 427: the mirror. \<open>ref\<close> is \<^verbatim>\<open>*input.getRef()\<close>, set at line 325. The
  result carries the input, the revision it now holds and \<^verbatim>\<open>repoDir\<close>.
\<close>

definition useMirror :: "env \<Rightarrow> RepoInfo \<Rightarrow> Input \<Rightarrow> string \<Rightarrow> world
    \<Rightarrow> (error + Input \<times> string \<times> string) \<times> world" where
  "useMirror env repoInfo input ref w0 =
     (let cacheDir = cacheDirOf env (url repoInfo);
          repoDir = cacheDir;
          w = logEvent (FsLock (cacheDir @ ''.lock'')) (logEvent (FsCreateDirs (dirOf cacheDir)) w0)
      in case fsPathExists cacheDir w of
           (ex, w) \<Rightarrow>
     (case (if \<not> ex
            then (case runProgram env [''-c'', ''init.defaultBranch='' @ gitInitialBranch,
                                       ''init'', ''--bare'', repoDir] w of
                    (Inl e, w) \<Rightarrow> (Inl e, w)
                  | (Inr _, w) \<Rightarrow> (Inr (), w))
            else (Inr (), w)) of
        (Inl e, w) \<Rightarrow> (Inl e, w)
      | (Inr _, w) \<Rightarrow>
     (let localRefFile = localRefFileOf cacheDir ref
      in case decideFetch env repoInfo input repoDir localRefFile w of
           (Inl e, w) \<Rightarrow> (Inl e, w)
         | (Inr doFetch, w) \<Rightarrow>
     (case (if doFetch then refreshMirror env repoInfo ref repoDir localRefFile w
            else (Inr (), w)) of
        (Inl e, w) \<Rightarrow> (Inl e, w)
      | (Inr _, w) \<Rightarrow>
          (case getRev input of
             Some gitRev \<Rightarrow> (Inr (input, gitRev, repoDir), w)
           | None \<Rightarrow>
               (case fsReadFile localRefFile w of
                  (Inl e, w) \<Rightarrow> (Inl e, w)
                | (Inr c, w) \<Rightarrow>
                    (case parseRev env (chomp c) of
                       Inl e \<Rightarrow> (Inl e, w)
                     | Inr gitRev \<Rightarrow> (Inr (input\<lparr>attr_rev := Some gitRev\<rparr>, gitRev, repoDir), w))))))))"

text \<open>Lines 346 to 430: the mutable cache entry first, the mirror otherwise.\<close>

definition resolveRemote :: "env \<Rightarrow> Input \<Rightarrow> RepoInfo \<Rightarrow> Input \<Rightarrow> string \<Rightarrow> Attrs \<Rightarrow> world
    \<Rightarrow> (string \<times> Input, Input \<times> string \<times> string) outcome \<times> world" where
  "resolveRemote env input0 repoInfo input ref mutableAttrs w0 =
     (let mirror = (\<lambda>w. case useMirror env repoInfo input ref w of
                          (Inl e, w) \<Rightarrow> (Throw e, w)
                        | (Inr x, w) \<Rightarrow> (Next x, w))
      in case cacheLookup env mutableAttrs w0 of
           (None, w) \<Rightarrow> mirror w
         | (Some (info, sp), w) \<Rightarrow>
             (case getStrAttr info ''rev'' of
                Inl e \<Rightarrow> (Throw e, w)
              | Inr s \<Rightarrow>
                  (case parseRev env s of
                     Inl e \<Rightarrow> (Throw e, w)
                   | Inr gitRev2 \<Rightarrow>
                       if getRev input = None \<or> getRev input = Some gitRev2
                       then (case makeResult repoInfo input0 (input\<lparr>attr_rev := Some gitRev2\<rparr>)
                                     info sp of
                               Inl e \<Rightarrow> (Throw e, w)
                             | Inr r \<Rightarrow> (Return r, w))
                       else mirror w)))"

subsection \<open>From the revision to the store (lines 432 to 527)\<close>

fun runAll :: "env \<Rightarrow> string list list \<Rightarrow> world \<Rightarrow> (error + unit) \<times> world" where
  "runAll env [] w = (Inr (), w)"
| "runAll env (args # rest) w0 =
     (case runProgram env args w0 of
        (Inl e, w) \<Rightarrow> (Inl e, w)
      | (Inr _, w) \<Rightarrow> runAll env rest w)"

text \<open>
  Lines 446 to 497: the temporary directory, the check that the revision is there, and the
  tree of the revision, by \<^verbatim>\<open>git archive\<close> or, with submodules, by a checkout. The result
  is the directory and the filter for the store. The temporary directories are deleted when
  \<^verbatim>\<open>fetch\<close> ends, which the model leaves out.
\<close>

definition extractRevision :: "env \<Rightarrow> RepoInfo \<Rightarrow> string \<Rightarrow> string \<Rightarrow> world
    \<Rightarrow> (error + string \<times> path_filter) \<times> world" where
  "extractRevision env repoInfo gitRev repoDir w0 =
     (let tmpDir = tmpDirName env;
          w = logEvent (FsCreateTempDir tmpDir) w0
      in case runProgramOptions env [''-C'', repoDir, ''cat-file'', ''commit'', gitRev] w of
           (Inl e, w) \<Rightarrow> (Inl e, w)
         | (Inr (status, out), w) \<Rightarrow>
             if status = Exited 128 \<and> findSub out ''bad file'' \<noteq> None
             then (Inl (RevisionNotFound gitRev), w)
             else if submodules repoInfo then
               (let tmpGitDir = tmpGitDirName env;
                    w = logEvent (FsCreateTempDir tmpGitDir) w
                in case runAll env
                          [[''-c'', ''init.defaultBranch='' @ gitInitialBranch, ''init'', tmpDir,
                            ''--separate-git-dir'', tmpGitDir],
                           [''-C'', tmpDir, ''fetch'', ''--quiet'', ''--force'',
                            ''--update-head-ok'', ''--'', repoDir, ''refs/*:refs/*''],
                           [''-C'', tmpDir, ''checkout'', ''--quiet'', gitRev],
                           [''-C'', tmpDir, ''remote'', ''add'', ''origin'', url repoInfo],
                           [''-C'', tmpDir, ''submodule'', ''--quiet'', ''update'', ''--init'',
                            ''--recursive'']] w of
                     (Inl e, w) \<Rightarrow> (Inl e, w)
                   | (Inr _, w) \<Rightarrow> (Inr (tmpDir, isNotDotGitDirectory), w))
             else
               (case runProgram env [''-C'', repoDir, ''archive'', gitRev] w of
                  (Inl e, w) \<Rightarrow> (Inl e, w)
                | (Inr source, w) \<Rightarrow>
                    (case unpackTarfile env source tmpDir w of
                       (Inl e, w) \<Rightarrow> (Inl e, w)
                     | (Inr _, w) \<Rightarrow> (Inr (tmpDir, defaultPathFilter), w))))"

text \<open>Lines 499 to 527: the store, the metadata, the two cache entries, the result.\<close>

definition ingest :: "env \<Rightarrow> Input \<Rightarrow> RepoInfo \<Rightarrow> string \<Rightarrow> Attrs \<Rightarrow> Input \<Rightarrow> string \<Rightarrow> string
    \<Rightarrow> string \<Rightarrow> path_filter \<Rightarrow> world \<Rightarrow> (error + string \<times> Input) \<times> world" where
  "ingest env input0 repoInfo name mutableAttrs input gitRev repoDir tmpDir flt w0 =
     (case addToStore env name tmpDir flt w0 of
        (Inl e, w) \<Rightarrow> (Inl e, w)
      | (Inr sp, w) \<Rightarrow>
     (case runProgram env [''-C'', repoDir, ''log'', ''-1'', ''--format=%ct'',
                           ''--no-show-signature'', gitRev] w of
        (Inl e, w) \<Rightarrow> (Inl e, w)
      | (Inr out, w) \<Rightarrow>
     (case readNumber env out of
        Inl e \<Rightarrow> (Inl e, w)
      | Inr lastModified \<Rightarrow>
     (let info = [(''lastModified'', AInt lastModified), (''rev'', AString gitRev)]
      in case (if \<not> shallow repoInfo
               then (case runProgram env [''-C'', repoDir, ''rev-list'', ''--count'', gitRev] w of
                       (Inl e, w) \<Rightarrow> (Inl e, w)
                     | (Inr out, w) \<Rightarrow>
                         (case readNumber env out of
                            Inl e \<Rightarrow> (Inl e, w)
                          | Inr n \<Rightarrow> (Inr (insert_or_assign ''revCount'' (AInt n) info), w)))
               else (Inr info, w)) of
           (Inl e, w) \<Rightarrow> (Inl e, w)
         | (Inr info, w) \<Rightarrow>
             (let w = (if getRev input0 = None
                       then cacheAdd env mutableAttrs info sp False w else w);
                  w = cacheAdd env (getImmutableAttrs repoInfo name gitRev) info sp True w
              in (makeResult repoInfo input0 input info sp, w))))))"

text \<open>
  Lines 432 to 527. \<open>rev\<close> is \<^verbatim>\<open>input.getRev()->gitRev()\<close>, which is set on every way
  here.
\<close>

definition fetchResolved :: "env \<Rightarrow> Input \<Rightarrow> RepoInfo \<Rightarrow> string \<Rightarrow> Attrs \<Rightarrow> Input \<Rightarrow> string
    \<Rightarrow> string \<Rightarrow> world \<Rightarrow> (error + string \<times> Input) \<times> world" where
  "fetchResolved env input0 repoInfo name mutableAttrs input gitRev repoDir w0 =
     (case runProgram env [''-C'', repoDir, ''rev-parse'', ''--is-shallow-repository''] w0 of
        (Inl e, w) \<Rightarrow> (Inl e, w)
      | (Inr out, w) \<Rightarrow>
          (let isShallow = (chomp out = ''true'')
           in if isShallow \<and> \<not> shallow repoInfo
              then (Inl (ShallowMismatch (url repoInfo)), w)
              else (case cacheLookup env (getImmutableAttrs repoInfo name gitRev) w of
                      (Some (info, sp), w) \<Rightarrow> (makeResult repoInfo input0 input info sp, w)
                    | (None, w) \<Rightarrow>
                        (case extractRevision env repoInfo gitRev repoDir w of
                           (Inl e, w) \<Rightarrow> (Inl e, w)
                         | (Inr (tmpDir, flt), w) \<Rightarrow>
                             ingest env input0 repoInfo name mutableAttrs input gitRev repoDir
                               tmpDir flt w))))"

subsection \<open>fetch\<close>

definition fetch :: "env \<Rightarrow> Input \<Rightarrow> world \<Rightarrow> (error + string \<times> Input) \<times> world" where
  "fetch env input0 w0 =
     (let input = input0
      in case getRepoInfo env input w0 of
           (Inl e, w) \<Rightarrow> (Inl e, w)
         | (Inr repoInfo, w) \<Rightarrow>
     (let name = getName input
      in case (case getRev input of
                 Some gitRev \<Rightarrow> cacheLookup env (getImmutableAttrs repoInfo name gitRev) w
               | None \<Rightarrow> (None, w)) of
           (Some (info, sp), w) \<Rightarrow> (makeResult repoInfo input0 input info sp, w)
         | (None, w) \<Rightarrow>
     if isDirty repoInfo then fetchDirty env repoInfo input w
     else
     (case (case getRef input of
              Some ref \<Rightarrow> (Inr ref, w)
            | None \<Rightarrow> if isLocal repoInfo then readHead env (url repoInfo) w
                      else (Inr ''master'', w)) of
        (Inl e, w) \<Rightarrow> (Inl e, w)
      | (Inr ref, w) \<Rightarrow>
     (let input = input\<lparr>attr_ref := Some ref\<rparr>;
          mutableAttrs = mutableAttrsOf repoInfo name ref
      in case (if isLocal repoInfo
               then (case resolveLocal env repoInfo input ref w of
                       (Inl e, w) \<Rightarrow> (Throw e, w)
                     | (Inr x, w) \<Rightarrow> (Next x, w))
               else resolveRemote env input0 repoInfo input ref mutableAttrs w) of
           (Throw e, w) \<Rightarrow> (Inl e, w)
         | (Return r, w) \<Rightarrow> (Inr r, w)
         | (Next (input, gitRev, repoDir), w) \<Rightarrow>
             fetchResolved env input0 repoInfo name mutableAttrs input gitRev repoDir w))))"

section \<open>Notions used in the statements\<close>

text \<open>
  The path below the root that \<^verbatim>\<open>isAllowed\<close> computes in its local variable
  \<^verbatim>\<open>subPath\<close>.
\<close>

definition subPathOf :: "string \<Rightarrow> string \<Rightarrow> string" where
  "subPathOf r absPath =
     (let subPath = drop (length r) absPath
      in if hasPrefix subPath ''/'' then drop 1 subPath else subPath)"

text \<open>
  A path \<open>q\<close> is rooted at \<open>r\<close> when it is \<open>r\<close> followed by one or more components, each
  after a slash.
\<close>

definition rootedAt :: "string \<Rightarrow> string \<Rightarrow> bool" where
  "rootedAt r q = (\<exists>names. names \<noteq> [] \<and> q = r @ concat (map (\<lambda>n. ''/'' @ n) names))"

text \<open>
  What a part of a run under the path \<open>p\<close> adds to the two logs: filter calls on paths
  rooted at \<open>p\<close>, and visits of paths rooted at \<open>p\<close> that the predicate \<open>f\<close> accepts
  (and of \<open>p\<close> itself when \<open>atRoot\<close> holds).
\<close>

definition extends :: "(string \<Rightarrow> bool) \<Rightarrow> string \<Rightarrow> bool \<Rightarrow> dump_state \<Rightarrow> dump_state \<Rightarrow> bool" where
  "extends f p atRoot st st' =
     ((\<exists>nf. filterCalls st' = filterCalls st @ nf \<and> (\<forall>q \<in> set nf. rootedAt p q))
      \<and> (\<exists>nv. visited st' = visited st @ nv
            \<and> (\<forall>v \<in> set nv. (atRoot \<and> v = p) \<or> (f v \<and> rootedAt p v))))"

text \<open>
  The accessor that hides from every directory listing the entries a predicate rejects,
  and the agreement of two runs in their result, the bytes written and the paths visited.
\<close>

definition withoutExcluded :: "accessor \<Rightarrow> (string \<Rightarrow> bool) \<Rightarrow> accessor" where
  "withoutExcluded acc include =
     acc\<lparr>readDirectory := (\<lambda>p. case readDirectory acc p of
                                 Inl e \<Rightarrow> Inl e
                               | Inr es \<Rightarrow> Inr (filter (\<lambda>(n, t). include (p @ ''/'' @ n)) es))\<rparr>"

definition sameOutput :: "(error + unit) option \<times> dump_state
    \<Rightarrow> (error + unit) option \<times> dump_state \<Rightarrow> bool" where
  "sameOutput r r' =
     (fst r = fst r' \<and> sink (snd r) = sink (snd r') \<and> visited (snd r) = visited (snd r'))"

section \<open>Concrete instances\<close>

text \<open>
  A directory \<^verbatim>\<open>/R\<close> that holds \<^verbatim>\<open>sub/x\<close> and \<^verbatim>\<open>sub/y\<close>, next to a file \<^verbatim>\<open>/outside\<close>;
  the directory \<^verbatim>\<open>/R/sub\<close> lists \<^verbatim>\<open>y\<close> before \<^verbatim>\<open>x\<close>.
\<close>

definition exampleFS :: filesystem where
  "exampleFS =
     \<lparr>fs_readFile = (\<lambda>p. if p = ''/R/sub/x'' then Inr ''hello''
                         else if p = ''/R/sub/y'' then Inr ''bye''
                         else Inl (SysError p)),
      fs_pathExists = (\<lambda>p. p \<in> set [''/R'', ''/R/sub'', ''/R/sub/x'', ''/R/sub/y'', ''/outside'']),
      fs_lstat = (\<lambda>p. if p \<in> set [''/R'', ''/R/sub''] then Inr 0x41ED
                      else if p \<in> set [''/R/sub/x'', ''/R/sub/y'', ''/outside''] then Inr 0x81A4
                      else Inl (SysError p)),
      fs_readDirectory = (\<lambda>p. if p = ''/R'' then Inr [(''sub'', DT_DIR)]
                              else if p = ''/R/sub'' then Inr [(''y'', DT_REG), (''x'', DT_REG)]
                              else Inl (SysError p)),
      fs_readLink = (\<lambda>p. Inl (SysError p))\<rparr>"

definition sandboxNoList :: FSInputAccessor where
  "sandboxNoList = \<lparr>root = ''/R'', allowedPaths = None\<rparr>"

definition sandboxSubX :: FSInputAccessor where
  "sandboxSubX = \<lparr>root = ''/R'', allowedPaths = Some [''sub/x'']\<rparr>"

text \<open>
  An archive with a directory, a file, a symbolic link (mode 0120777), an executable file,
  a second directory and a fifo (mode 0010644), all with Unix attributes.
\<close>

definition exampleZip :: zip where
  "exampleZip =
     \<lparr>zip_stat_index =
        [Some \<lparr>zs_name = ''top/'', zs_index = 0, zs_size = 0\<rparr>,
         Some \<lparr>zs_name = ''top/file'', zs_index = 1, zs_size = 5\<rparr>,
         Some \<lparr>zs_name = ''top/link'', zs_index = 2, zs_size = 4\<rparr>,
         Some \<lparr>zs_name = ''top/run'', zs_index = 3, zs_size = 4\<rparr>,
         Some \<lparr>zs_name = ''top/dir/'', zs_index = 4, zs_size = 0\<rparr>,
         Some \<lparr>zs_name = ''top/fifo'', zs_index = 5, zs_size = 0\<rparr>],
      zip_file_get_external_attributes =
        (\<lambda>i. if i = 0 then Some (3, push_bit 16 0x41ED)
             else if i = 1 then Some (3, push_bit 16 0x81A4)
             else if i = 2 then Some (3, push_bit 16 0xA1FF)
             else if i = 3 then Some (3, push_bit 16 0x81ED)
             else if i = 4 then Some (3, push_bit 16 0x41ED)
             else if i = 5 then Some (3, push_bit 16 0x11A4)
             else None)\<rparr>"

definition exampleZipAccessor :: ZipInputAccessor where
  "exampleZipAccessor =
     \<lparr>zipFile = exampleZip,
      members =
        [(''/'', \<lparr>zs_name = ''top/'', zs_index = 0, zs_size = 0\<rparr>),
         (''/dir/'', \<lparr>zs_name = ''top/dir/'', zs_index = 4, zs_size = 0\<rparr>),
         (''/fifo'', \<lparr>zs_name = ''top/fifo'', zs_index = 5, zs_size = 0\<rparr>),
         (''/file'', \<lparr>zs_name = ''top/file'', zs_index = 1, zs_size = 5\<rparr>),
         (''/link'', \<lparr>zs_name = ''top/link'', zs_index = 2, zs_size = 4\<rparr>),
         (''/run'', \<lparr>zs_name = ''top/run'', zs_index = 3, zs_size = 4\<rparr>)]\<rparr>"

text \<open>The same files, with the directory \<^verbatim>\<open>/R/sub\<close> listing \<^verbatim>\<open>x\<close> before \<^verbatim>\<open>y\<close>.\<close>

definition exampleFSReordered :: filesystem where
  "exampleFSReordered =
     exampleFS\<lparr>fs_readDirectory :=
       (\<lambda>p. if p = ''/R/sub'' then Inr [(''x'', DT_REG), (''y'', DT_REG)]
            else fs_readDirectory exampleFS p)\<rparr>"

text \<open>A predicate that rejects the one path \<^verbatim>\<open>//sub/y\<close>.\<close>

definition allButY :: "string \<Rightarrow> bool" where
  "allButY q = (q \<noteq> ''//sub/y'')"

section \<open>Properties of the file system accessor\<close>

lemma lower_bound_mem: "lower_bound k xs = Some x \<Longrightarrow> x \<in> set xs"
  by (induction xs) (auto split: if_splits)

lemma lower_bound_found:
  "sorted_wrt (<) xs \<Longrightarrow> k \<in> set xs \<Longrightarrow> lower_bound k xs = Some k"
  by (induction xs) auto

lemma isAllowed_iff:
  "isAllowed a absPath \<longleftrightarrow>
     isDirOrInDir absPath (root a) \<and>
     (case allowedPaths a of
        None \<Rightarrow> True
      | Some allowed \<Rightarrow>
          subPathOf (root a) absPath = [] \<or>
          (\<exists>lb. lower_bound (subPathOf (root a) absPath) allowed = Some lb
             \<and> isDirOrInDir (''/'' @ lb) (''/'' @ subPathOf (root a) absPath)))"
  by (auto simp: isAllowed_def subPathOf_def Let_def split: option.splits)

lemma denied_ops:
  "makeAbsPath a p = Inr absPath \<Longrightarrow> \<not> isAllowed a absPath \<Longrightarrow>
     FS_readFile a fs p = Inl (AccessDenied absPath)
     \<and> FS_lstat a fs p = Inl (AccessDenied absPath)
     \<and> FS_readDirectory a fs p = Inl (AccessDenied absPath)
     \<and> FS_readLink a fs p = Inl (AccessDenied absPath)"
  by (simp add: FS_readFile_def FS_lstat_def FS_readDirectory_def FS_readLink_def checkAllowed_def)

text \<open>
  Claim C2, as the code has it. Let \<open>absPath\<close> be the canonical form of the root followed
  by the requested path. (1) If \<open>absPath\<close> is neither the root nor inside it, each of
  \<^verbatim>\<open>readFile\<close>, \<^verbatim>\<open>lstat\<close>, \<^verbatim>\<open>readDirectory\<close> and \<^verbatim>\<open>readLink\<close> fails with the access-denied
  error. (2) With an allow-list and a path other than the root itself: a path that is
  permitted has an allow-list entry that equals it or lies under it; when no entry equals
  the path or lies under it, the four operations fail with the access-denied error; and a
  path inside the root that equals an entry of the (sorted) allow-list is permitted. The
  direction is the reverse of the claim's: the entry is nested under the path, not the path
  under the entry.
\<close>

theorem FS_sandbox_containment:
  assumes abs: "makeAbsPath a p = Inr absPath"
  shows "(\<not> isDirOrInDir absPath (root a) \<longrightarrow>
            FS_readFile a fs p = Inl (AccessDenied absPath)
            \<and> FS_lstat a fs p = Inl (AccessDenied absPath)
            \<and> FS_readDirectory a fs p = Inl (AccessDenied absPath)
            \<and> FS_readLink a fs p = Inl (AccessDenied absPath))
       \<and> (\<forall>allowed. allowedPaths a = Some allowed \<and> subPathOf (root a) absPath \<noteq> [] \<longrightarrow>
            (isAllowed a absPath \<longrightarrow>
               (\<exists>e \<in> set allowed. isDirOrInDir (''/'' @ e) (''/'' @ subPathOf (root a) absPath)))
            \<and> (\<not> (\<exists>e \<in> set allowed. isDirOrInDir (''/'' @ e) (''/'' @ subPathOf (root a) absPath)) \<longrightarrow>
                 FS_readFile a fs p = Inl (AccessDenied absPath)
                 \<and> FS_lstat a fs p = Inl (AccessDenied absPath)
                 \<and> FS_readDirectory a fs p = Inl (AccessDenied absPath)
                 \<and> FS_readLink a fs p = Inl (AccessDenied absPath))
            \<and> (sorted_wrt (<) allowed \<and> isDirOrInDir absPath (root a)
                 \<and> subPathOf (root a) absPath \<in> set allowed \<longrightarrow> isAllowed a absPath))"
proof (intro conjI allI impI)
  assume "\<not> isDirOrInDir absPath (root a)"
  then have "\<not> isAllowed a absPath" by (simp add: isAllowed_def)
  from denied_ops [OF abs this]
  show "FS_readFile a fs p = Inl (AccessDenied absPath)"
    and "FS_lstat a fs p = Inl (AccessDenied absPath)"
    and "FS_readDirectory a fs p = Inl (AccessDenied absPath)"
    and "FS_readLink a fs p = Inl (AccessDenied absPath)" by simp_all
next
  fix allowed
  assume h: "allowedPaths a = Some allowed \<and> subPathOf (root a) absPath \<noteq> []"
  { assume "isAllowed a absPath"
    with h obtain lb where "lower_bound (subPathOf (root a) absPath) allowed = Some lb"
      and "isDirOrInDir (''/'' @ lb) (''/'' @ subPathOf (root a) absPath)"
      by (auto simp: isAllowed_iff)
    then show "\<exists>e \<in> set allowed. isDirOrInDir (''/'' @ e) (''/'' @ subPathOf (root a) absPath)"
      using lower_bound_mem by blast }
  note only_if = this
  { assume "\<not> (\<exists>e \<in> set allowed. isDirOrInDir (''/'' @ e) (''/'' @ subPathOf (root a) absPath))"
    with only_if have "\<not> isAllowed a absPath" by blast
    from denied_ops [OF abs this]
    show "FS_readFile a fs p = Inl (AccessDenied absPath)"
      and "FS_lstat a fs p = Inl (AccessDenied absPath)"
      and "FS_readDirectory a fs p = Inl (AccessDenied absPath)"
      and "FS_readLink a fs p = Inl (AccessDenied absPath)" by simp_all }
  { assume "sorted_wrt (<) allowed \<and> isDirOrInDir absPath (root a)
                 \<and> subPathOf (root a) absPath \<in> set allowed"
    then show "isAllowed a absPath"
      using h by (auto simp: isAllowed_iff lower_bound_found isDirOrInDir_def) }
qed

text \<open>
  The sandbox of the specification: rooted at \<^verbatim>\<open>/R\<close> with the allow-list \<^verbatim>\<open>{sub/x}\<close>, it
  denies \<^verbatim>\<open>/sub/y\<close> and permits \<^verbatim>\<open>/sub/x\<close>.
\<close>

theorem FS_sandbox_containment_witness:
  "makeAbsPath sandboxSubX ''/sub/y'' = Inr ''/R/sub/y''
   \<and> allowedPaths sandboxSubX = Some [''sub/x'']
   \<and> subPathOf (root sandboxSubX) ''/R/sub/y'' = ''sub/y''
   \<and> \<not> isDirOrInDir (''/'' @ ''sub/x'') (''/'' @ ''sub/y'')
   \<and> FS_readFile sandboxSubX exampleFS ''/sub/y'' = Inl (AccessDenied ''/R/sub/y'')
   \<and> FS_lstat sandboxSubX exampleFS ''/sub/y'' = Inl (AccessDenied ''/R/sub/y'')
   \<and> isAllowed sandboxSubX ''/R/sub/x''
   \<and> FS_readFile sandboxSubX exampleFS ''/sub/x'' = Inr ''hello''"
proof -
  have abs: "makeAbsPath sandboxSubX ''/sub/y'' = Inr ''/R/sub/y''" by code_simp
  have abs': "makeAbsPath sandboxSubX ''/sub/x'' = Inr ''/R/sub/x''" by code_simp
  have al: "allowedPaths sandboxSubX = Some [''sub/x'']" by (simp add: sandboxSubX_def)
  have sub: "subPathOf (root sandboxSubX) ''/R/sub/y'' = ''sub/y''" by code_simp
  have sub': "subPathOf (root sandboxSubX) ''/R/sub/x'' = ''sub/x''" by code_simp
  have no: "\<not> isDirOrInDir (''/'' @ ''sub/x'') (''/'' @ ''sub/y'')" by code_simp
  have inroot: "isDirOrInDir ''/R/sub/x'' (root sandboxSubX)" by code_simp
  have rd: "FS_readFile sandboxSubX exampleFS ''/sub/x'' = Inr ''hello''" by code_simp
  from FS_sandbox_containment [OF abs, of exampleFS] al sub no
  have d: "FS_readFile sandboxSubX exampleFS ''/sub/y'' = Inl (AccessDenied ''/R/sub/y'')"
       "FS_lstat sandboxSubX exampleFS ''/sub/y'' = Inl (AccessDenied ''/R/sub/y'')"
    by simp_all
  from FS_sandbox_containment [OF abs', of exampleFS] al sub' inroot
  have "isAllowed sandboxSubX ''/R/sub/x''" by simp
  with abs al sub no d rd show ?thesis by simp
qed

text \<open>
  Against claim C2 as stated: with the allow-list \<^verbatim>\<open>{sub/x}\<close> the path \<^verbatim>\<open>/sub\<close> neither
  equals the entry nor is nested under it, and it is permitted: \<^verbatim>\<open>lstat\<close> and
  \<^verbatim>\<open>readDirectory\<close> answer.
\<close>

theorem FS_allow_list_counterexample:
  "makeAbsPath sandboxSubX ''/sub'' = Inr ''/R/sub''
   \<and> allowedPaths sandboxSubX = Some [''sub/x'']
   \<and> subPathOf (root sandboxSubX) ''/R/sub'' = ''sub''
   \<and> \<not> isDirOrInDir (''/'' @ ''sub'') (''/'' @ ''sub/x'')
   \<and> isAllowed sandboxSubX ''/R/sub''
   \<and> FS_lstat sandboxSubX exampleFS ''/sub'' = Inr \<lparr>type = tDirectory, isExecutable = False\<rparr>
   \<and> FS_readDirectory sandboxSubX exampleFS ''/sub'' = Inr [(''x'', Some tRegular)]"
  by code_simp

text \<open>
  Claim C10. For a requested path that starts with a slash (the accessor asserts it) and a
  root that is empty or absolute, the canonical path \<open>absPath\<close> exists and \<^verbatim>\<open>pathExists\<close>
  returns a boolean, never an error. When \<open>absPath\<close> is not allowed (outside the root or
  outside the allow-list), \<^verbatim>\<open>pathExists\<close> returns false, whereas \<^verbatim>\<open>readFile\<close>, \<^verbatim>\<open>lstat\<close>,
  \<^verbatim>\<open>readDirectory\<close> and \<^verbatim>\<open>readLink\<close> fail with the access-denied error.
\<close>

theorem FS_pathExists_disallowed:
  assumes "hasPrefix p ''/''" and "root a = [] \<or> hasPrefix (root a) ''/''"
  shows "\<exists>absPath. makeAbsPath a p = Inr absPath
           \<and> FS_pathExists a fs p = Inr (isAllowed a absPath \<and> fs_pathExists fs absPath)
           \<and> (\<not> isAllowed a absPath \<longrightarrow>
                 FS_pathExists a fs p = Inr False
                 \<and> FS_readFile a fs p = Inl (AccessDenied absPath)
                 \<and> FS_lstat a fs p = Inl (AccessDenied absPath)
                 \<and> FS_readDirectory a fs p = Inl (AccessDenied absPath)
                 \<and> FS_readLink a fs p = Inl (AccessDenied absPath))"
proof -
  from assms have ne: "root a @ p \<noteq> []" and hd: "hd (root a @ p) = CHR ''/''"
    by (cases p; cases "root a"; auto simp: hasPrefix_def)+
  then obtain absPath where abs: "makeAbsPath a p = Inr absPath"
    using assms(1) by (auto simp: makeAbsPath_def canonPath_def)
  have "FS_pathExists a fs p = Inr (isAllowed a absPath \<and> fs_pathExists fs absPath)"
    using abs by (simp add: FS_pathExists_def)
  with abs denied_ops [OF abs, of fs] show ?thesis by auto
qed

text \<open>
  The file \<^verbatim>\<open>/R/sub/y\<close> exists and is not on the allow-list: \<^verbatim>\<open>pathExists\<close> says false,
  \<^verbatim>\<open>readLink\<close> fails.
\<close>

theorem FS_pathExists_disallowed_witness:
  "hasPrefix ''/sub/y'' ''/'' \<and> hasPrefix (root sandboxSubX) ''/''
   \<and> makeAbsPath sandboxSubX ''/sub/y'' = Inr ''/R/sub/y''
   \<and> \<not> isAllowed sandboxSubX ''/R/sub/y''
   \<and> fs_pathExists exampleFS ''/R/sub/y''
   \<and> FS_pathExists sandboxSubX exampleFS ''/sub/y'' = Inr False
   \<and> FS_readLink sandboxSubX exampleFS ''/sub/y'' = Inl (AccessDenied ''/R/sub/y'')"
proof -
  have p: "hasPrefix ''/sub/y'' ''/''" by code_simp
  have r: "hasPrefix (root sandboxSubX) ''/''" by code_simp
  have abs: "makeAbsPath sandboxSubX ''/sub/y'' = Inr ''/R/sub/y''" by code_simp
  have no: "\<not> isAllowed sandboxSubX ''/R/sub/y''" by code_simp
  have ex: "fs_pathExists exampleFS ''/R/sub/y''" by code_simp
  from FS_pathExists_disallowed [OF p disjI2 [OF r], of exampleFS] abs no
  have "FS_pathExists sandboxSubX exampleFS ''/sub/y'' = Inr False
        \<and> FS_readLink sandboxSubX exampleFS ''/sub/y'' = Inl (AccessDenied ''/R/sub/y'')"
    by auto
  with p r abs no ex show ?thesis by simp
qed

section \<open>Properties of the archive accessor\<close>

lemma exampleZipAccessor_made: "makeZipInputAccessor exampleZip = Inr exampleZipAccessor"
  by (simp add: makeZipInputAccessor_def exampleZip_def exampleZipAccessor_def Let_def)

text \<open>
  Whatever the attribute bits say, the type \<^verbatim>\<open>lstat\<close> returns is decided by the lookup
  alone: regular for a member found under the path, directory for one found under the path
  followed by a slash. It never returns the symlink type.
\<close>

lemma ZIP_lstat_type:
  "ZIP_lstat a p = Inr s \<Longrightarrow> canonPath p = Inr q \<Longrightarrow>
     type s = (if map_of (members a) q \<noteq> None then tRegular else tDirectory)"
  by (auto simp: ZIP_lstat_def Let_def split: sum.splits option.splits if_splits prod.splits)

text \<open>
  Claim C9 fails on the code. The member \<^verbatim>\<open>top/link\<close> of the example archive has Unix
  attributes with the file type bits 0120000 of a symbolic link; \<^verbatim>\<open>lstat\<close> of \<^verbatim>\<open>/link\<close>
  returns the type regular.
\<close>

theorem ZIP_lstat_symlink_is_reported_regular:
  "zip_file_get_external_attributes exampleZip 2 = Some (ZIP_OPSYS_UNIX, push_bit 16 0xA1FF)
   \<and> drop_bit 16 (push_bit 16 0xA1FF :: 32 word) AND 258048 = 40960
   \<and> ZIP_lstat exampleZipAccessor ''/link'' = Inr \<lparr>type = tRegular, isExecutable = False\<rparr>"
  by code_simp

section \<open>Properties of dumpPath\<close>

subsection \<open>The map of names\<close>

lemma set_emplace_subset: "set (emplace k v m) \<subseteq> insert (k, v) (set m)"
  by (induction m) (auto split: if_splits)

lemma set_emplace_supset: "set m \<subseteq> set (emplace k v m)"
  by (induction m) auto

lemma key_in_emplace: "k \<in> fst ` set (emplace k v m)"
  by (induction m) (force split: if_splits)+

lemma keys_emplace: "fst ` set (emplace k v m) = insert k (fst ` set m)"
proof
  show "fst ` set (emplace k v m) \<subseteq> insert k (fst ` set m)"
    using set_emplace_subset [of k v m] by auto
  show "insert k (fst ` set m) \<subseteq> fst ` set (emplace k v m)"
    using set_emplace_supset [of m k v] key_in_emplace [of k v m] by auto
qed

lemma sorted_emplace:
  "sorted_wrt (<) (map fst m) \<Longrightarrow> sorted_wrt (<) (map fst (emplace k v m))"
proof (induction m)
  case Nil
  then show ?case by simp
next
  case (Cons a m)
  obtain k' v' where a: "a = (k', v')" by (cases a)
  from Cons.prems a have sm: "sorted_wrt (<) (map fst m)" and lt: "\<forall>x \<in> fst ` set m. k' < x"
    by auto
  show ?case
  proof (cases "k < k'")
    case True
    with Cons.prems a lt show ?thesis by (auto intro: less_trans)
  next
    case False
    show ?thesis
    proof (cases "k = k'")
      case True
      with Cons.prems a show ?thesis by simp
    next
      case ne: False
      with False have "k' < k" by simp
      with lt have "\<forall>x \<in> fst ` set (emplace k v m). k' < x" by (simp add: keys_emplace)
      with Cons.IH [OF sm] a False ne show ?thesis by simp
    qed
  qed
qed

lemma foldl_emplace_keys:
  "fst ` set (foldl (\<lambda>m e. emplace (fst e) (g e) m) m es) = fst ` set m \<union> fst ` set es"
  by (induction es arbitrary: m) (auto simp: keys_emplace)

lemma foldl_emplace_sorted:
  "sorted_wrt (<) (map fst m) \<Longrightarrow>
   sorted_wrt (<) (map fst (foldl (\<lambda>m e. emplace (fst e) (g e) m) m es))"
  by (induction es arbitrary: m) (auto simp: sorted_emplace)

lemma foldl_emplace_diag:
  "\<forall>x \<in> set m. snd x = fst x \<Longrightarrow>
   \<forall>x \<in> set (foldl (\<lambda>m e. emplace (fst e) (fst e) m) m es). snd x = fst x"
proof (induction es arbitrary: m)
  case Nil
  then show ?case by simp
next
  case (Cons e es)
  have "\<forall>x \<in> set (emplace (fst e) (fst e) m). snd x = fst x"
    using Cons.prems set_emplace_subset [of "fst e" "fst e" m] by auto
  from Cons.IH [OF this] show ?case by simp
qed

lemma strict_sorted_unique:
  "sorted_wrt (<) xs \<Longrightarrow> xs = sorted_list_of_set (set xs)"
  by (simp add: strict_sorted_iff sorted_list_of_set.idem_if_sorted_distinct)

lemma diag_map: "\<forall>x \<in> set u. snd x = fst x \<Longrightarrow> u = map (\<lambda>n. (n, n)) (map fst u)"
  by (induction u) (auto simp: prod_eq_iff)

lemma unhack_foldl:
  "unhack p es m = Inr (foldl (\<lambda>m e. emplace (fst e) (fst e) m) m es)"
  by (induction es arbitrary: m) (auto simp: useCaseHack_def)

lemma unhack_keys:
  "unhack p es [] = Inr (map (\<lambda>n. (n, n)) (sorted_list_of_set (fst ` set es)))"
proof -
  let ?u = "foldl (\<lambda>m e. emplace (fst e) (fst e) m) [] es"
  have s: "sorted_wrt (<) (map fst ?u)" by (rule foldl_emplace_sorted) simp
  have k: "fst ` set ?u = fst ` set es" using foldl_emplace_keys [of fst "[]" es] by simp
  have d: "\<forall>x \<in> set ?u. snd x = fst x" by (rule foldl_emplace_diag) simp
  from strict_sorted_unique [OF s] k
  have "map fst ?u = sorted_list_of_set (fst ` set es)" by simp
  with diag_map [OF d] show ?thesis by (simp add: unhack_foldl)
qed

subsection \<open>Runs over accessors that agree\<close>

lemma dumpEntries_cong:
  assumes P: "\<And>p st. dump n acc1 f p st = dump n acc2 f p st"
  shows "dumpEntries n acc1 f p es st = dumpEntries n acc2 f p es st"
proof (induction es arbitrary: st)
  case Nil
  show ?case by simp
next
  case (Cons e es)
  obtain a b where e: "e = (a, b)" by (cases e)
  show ?case unfolding e
    by (simp add: Let_def P Cons.IH split: prod.splits option.splits sum.splits)
qed

lemma dump_cong:
  assumes l: "lstat acc1 = lstat acc2" and r: "readFile acc1 = readFile acc2"
    and k: "readLink acc1 = readLink acc2"
    and d: "\<And>p. rel_sum (=) (\<lambda>xs ys. fst ` set xs = fst ` set ys)
                  (readDirectory acc1 p) (readDirectory acc2 p)"
  shows "dump n acc1 f p st = dump n acc2 f p st"
proof (induction n arbitrary: p st)
  case 0
  show ?case by simp
next
  case (Suc n)
  note E = dumpEntries_cong [of n acc1 f acc2, OF Suc.IH]
  show ?case
  proof (cases "readDirectory acc1 p")
    case (Inl e)
    with d [of p] have "readDirectory acc2 p = Inl e" by (cases "readDirectory acc2 p") auto
    with Inl show ?thesis by (simp add: l r k Let_def split: sum.splits)
  next
    case (Inr xs)
    with d [of p] obtain ys where ys: "readDirectory acc2 p = Inr ys" "fst ` set xs = fst ` set ys"
      by (cases "readDirectory acc2 p") auto
    with Inr show ?thesis by (simp add: l r k Let_def unhack_keys E split: sum.splits)
  qed
qed

lemma FS_readDirectory_loop_keys:
  "fst ` set (FS_readDirectory_loop a absPath entries res) =
     fst ` set res \<union> {name. \<exists>t. (name, t) \<in> set entries \<and> isAllowed a (absPath @ ''/'' @ name)}"
proof (induction entries arbitrary: res)
  case Nil
  show ?case by simp
next
  case (Cons e entries)
  obtain name t where e: "e = (name, t)" by (cases e)
  show ?case unfolding e
    by (auto simp: Cons.IH keys_emplace Let_def)
qed

lemma FS_readDirectory_order:
  assumes d: "\<And>q. rel_sum (=) (\<lambda>xs ys. set xs = set ys)
                   (fs_readDirectory fs1 q) (fs_readDirectory fs2 q)"
  shows "rel_sum (=) (\<lambda>xs ys. fst ` set xs = fst ` set ys)
           (FS_readDirectory a fs1 p) (FS_readDirectory a fs2 p)"
proof (cases "makeAbsPath a p")
  case (Inl e)
  then show ?thesis by (simp add: FS_readDirectory_def)
next
  case (Inr absPath)
  show ?thesis
  proof (cases "checkAllowed a absPath")
    case (Inl e)
    with Inr show ?thesis by (simp add: FS_readDirectory_def)
  next
    case ok: (Inr u)
    from d [of absPath] Inr ok show ?thesis
      by (cases "fs_readDirectory fs1 absPath"; cases "fs_readDirectory fs2 absPath")
         (auto simp: FS_readDirectory_def FS_readDirectory_loop_keys)
  qed
qed


subsection \<open>The two logs\<close>

lemma rootedAt_child: "rootedAt p (p @ CHR ''/'' # n)"
  unfolding rootedAt_def by (rule exI [of _ "[n]"]) simp

lemma rootedAt_trans: "rootedAt (p @ CHR ''/'' # n) q \<Longrightarrow> rootedAt p q"
  unfolding rootedAt_def
proof (elim exE conjE)
  fix names assume "names \<noteq> []" and q: "q = (p @ CHR ''/'' # n) @ concat (map (\<lambda>n. ''/'' @ n) names)"
  show "\<exists>names. names \<noteq> [] \<and> q = p @ concat (map (\<lambda>n. ''/'' @ n) names)"
    by (rule exI [of _ "n # names"]) (simp add: q)
qed

lemma extends_refl: "extends f p atRoot st st"
  by (simp add: extends_def)

lemma extends_put [simp]: "extends f p atRoot st (put s st') = extends f p atRoot st st'"
  by (simp add: extends_def put_def)

lemma extends_sink [simp]: "extends f p atRoot st (st'\<lparr>sink := x\<rparr>) = extends f p atRoot st st'"
  by (simp add: extends_def)

lemma extends_put_l [simp]: "extends f p atRoot (put s st) st' = extends f p atRoot st st'"
  by (simp add: extends_def put_def)

lemma extends_visit: "extends f p True st (st\<lparr>visited := visited st @ [p]\<rparr>)"
  by (simp add: extends_def)

lemma extends_trans:
  "extends f p atRoot st st' \<Longrightarrow> extends f p atRoot' st' st'' \<Longrightarrow> extends f p (atRoot \<or> atRoot') st st''"
  unfolding extends_def by (elim conjE exE) (auto simp: ball_Un)

lemma extends_child:
  assumes "extends f (p @ ''/'' @ n) True st st'" and "f (p @ ''/'' @ n)"
  shows "extends f p False st st'"
  using assms unfolding extends_def
  by (elim conjE exE) (auto intro: rootedAt_trans rootedAt_child)

lemma extends_filterCall:
  "extends f p False st (st\<lparr>filterCalls := filterCalls st @ [p @ ''/'' @ n]\<rparr>)"
  using rootedAt_child [of p n] by (simp add: extends_def)

lemma dumpEntries_extends:
  assumes P: "\<And>p st. extends f p True st (snd (dump n acc f p st))"
    and diag: "\<forall>x \<in> set es. snd x = fst x"
  shows "extends f p False st (snd (dumpEntries n acc f p es st))"
  using diag
proof (induction es arbitrary: st)
  case Nil
  show ?case by (simp add: extends_refl)
next
  case (Cons e es)
  obtain a b where e: "e = (a, b)" by (cases e)
  with Cons.prems have ab: "b = a" and rest: "\<forall>x \<in> set es. snd x = fst x" by auto
  let ?st1 = "st\<lparr>filterCalls := filterCalls st @ [p @ ''/'' @ a]\<rparr>"
  have s1: "extends f p False st ?st1" by (rule extends_filterCall)
  show ?case
  proof (cases "f (p @ ''/'' @ a)")
    case False
    from extends_trans [OF s1 Cons.IH [OF rest, of ?st1]] False
    show ?thesis by (simp add: e Let_def)
  next
    case True
    let ?st2 = "put ''node'' (put a (put ''name'' (put ''('' (put ''entry'' ?st1))))"
    obtain r st3 where d: "dump n acc f (p @ ''/'' @ a) ?st2 = (r, st3)" by (cases "dump n acc f (p @ ''/'' @ a) ?st2")
    from P [of "p @ ''/'' @ a" ?st2] d have "extends f (p @ ''/'' @ a) True ?st1 st3" by simp
    from extends_child [OF this True] have c: "extends f p False ?st1 st3" .
    from extends_trans [OF s1 c] have s3: "extends f p False st st3" by simp
    show ?thesis
    proof (cases "\<exists>u. r = Some (Inr u)")
      case True
      from s3 have s3': "extends f p False st (put '')'' st3)" by simp
      from extends_trans [OF s3' Cons.IH [OF rest, of "put '')'' st3"]]
      show ?thesis using True \<open>f (p @ ''/'' @ a)\<close> d by (auto simp: e ab Let_def)
    next
      case False
      then show ?thesis using \<open>f (p @ ''/'' @ a)\<close> d s3
        by (auto simp: e ab Let_def split: option.splits sum.splits)
    qed
  qed
qed

lemma unhack_diag: "unhack p es [] = Inr u \<Longrightarrow> \<forall>x \<in> set u. snd x = fst x"
  by (auto simp: unhack_keys)

lemma dump_extends: "extends f p True st (snd (dump n acc f p st))"
proof (induction n arbitrary: p st)
  case 0
  show ?case by (simp add: extends_refl)
next
  case (Suc n)
  let ?st0 = "st\<lparr>visited := visited st @ [p]\<rparr>"
  have v: "extends f p True st ?st0" by (rule extends_visit)
  show ?case
  proof (cases "lstat acc p")
    case (Inl e)
    with v show ?thesis by simp
  next
    case (Inr s)
    show ?thesis
    proof (cases "type s = tDirectory")
      case False
      with Inr v show ?thesis
        by (auto simp: Let_def split: sum.splits)
    next
      case True
      show ?thesis
      proof (cases "readDirectory acc p")
        case (Inl e)
        with Inr True v show ?thesis by (simp add: Let_def)
      next
        case entries: (Inr es)
        let ?u = "map (\<lambda>n. (n, n)) (sorted_list_of_set (fst ` set es))"
        let ?st1 = "put ''directory'' (put ''type'' (put ''('' ?st0))"
        obtain r st2 where de: "dumpEntries n acc f p ?u ?st1 = (r, st2)"
          by (cases "dumpEntries n acc f p ?u ?st1")
        have u: "\<forall>x \<in> set ?u. snd x = fst x" by simp
        from v have "extends f p True st ?st1" by simp
        from extends_trans [OF this dumpEntries_extends [of f n acc ?u p ?st1, OF Suc.IH u]] de
        have "extends f p True st st2" by simp
        with Inr True entries de show ?thesis
          by (auto simp: Let_def unhack_keys split: option.splits sum.splits)
      qed
    qed
  qed
qed

subsection \<open>Excluded entries\<close>

lemma sink_put [simp]: "sink (put s st) = sink st @ writeString s"
  by (simp add: put_def)

lemma visited_put [simp]: "visited (put s st) = visited st"
  by (simp add: put_def)

lemma sorted_list_of_set_filter:
  "finite A \<Longrightarrow> sorted_list_of_set {x \<in> A. P x} = filter P (sorted_list_of_set (A :: 'a::linorder set))"
proof -
  assume f: "finite A"
  have "sorted_wrt (<) (filter P (sorted_list_of_set A))"
    by (simp add: sorted_wrt_filter)
  from strict_sorted_unique [OF this] f show ?thesis by simp
qed

lemma keys_filter:
  "sorted_list_of_set (fst ` set (filter (\<lambda>(n, t). P n) es)) = filter P (sorted_list_of_set (fst ` set es))"
proof -
  have "fst ` set (filter (\<lambda>(n, t). P n) es) = {x \<in> fst ` set es. P x}" by force
  then show ?thesis by (simp add: sorted_list_of_set_filter)
qed

lemma filter_dup: "filter (\<lambda>(a, b). P a) (map (\<lambda>n. (n, n)) xs) = map (\<lambda>n. (n, n)) (filter P xs)"
  by (induction xs) auto

lemma dumpEntries_filter:
  assumes P: "\<And>p st st'. sink st = sink st' \<Longrightarrow> visited st = visited st' \<Longrightarrow>
                 sameOutput (dump n acc f p st) (dump n acc' (\<lambda>_. True) p st')"
  shows "sink st = sink st' \<Longrightarrow> visited st = visited st' \<Longrightarrow>
         sameOutput (dumpEntries n acc f p es st)
                    (dumpEntries n acc' (\<lambda>_. True) p (filter (\<lambda>(a, b). f (p @ ''/'' @ a)) es) st')"
proof (induction es arbitrary: st st')
  case Nil
  then show ?case by (simp add: sameOutput_def)
next
  case (Cons e es)
  obtain a b where e: "e = (a, b)" by (cases e)
  let ?st1 = "st\<lparr>filterCalls := filterCalls st @ [p @ ''/'' @ a]\<rparr>"
  let ?st1' = "st'\<lparr>filterCalls := filterCalls st' @ [p @ ''/'' @ a]\<rparr>"
  show ?case
  proof (cases "f (p @ ''/'' @ a)")
    case False
    from Cons.IH [of ?st1 st'] Cons.prems False show ?thesis by (simp add: e Let_def)
  next
    case True
    let ?st2 = "put ''node'' (put a (put ''name'' (put ''('' (put ''entry'' ?st1))))"
    let ?st2' = "put ''node'' (put a (put ''name'' (put ''('' (put ''entry'' ?st1'))))"
    obtain r st3 where d: "dump n acc f (p @ ''/'' @ b) ?st2 = (r, st3)"
      by (cases "dump n acc f (p @ ''/'' @ b) ?st2")
    obtain r' st3' where d': "dump n acc' (\<lambda>_. True) (p @ ''/'' @ b) ?st2' = (r', st3')"
      by (cases "dump n acc' (\<lambda>_. True) (p @ ''/'' @ b) ?st2'")
    from P [of ?st2 ?st2' "p @ ''/'' @ b"] Cons.prems d d'
    have eq: "r = r'" "sink st3 = sink st3'" "visited st3 = visited st3'"
      by (simp_all add: sameOutput_def)
    show ?thesis
    proof (cases "\<exists>u. r = Some (Inr u)")
      case True
      from Cons.IH [of "put '')'' st3" "put '')'' st3'"] eq
      have "sameOutput (dumpEntries n acc f p es (put '')'' st3))
              (dumpEntries n acc' (\<lambda>_. True) p (filter (\<lambda>(a, b). f (p @ ''/'' @ a)) es) (put '')'' st3'))"
        by simp
      with True eq \<open>f (p @ ''/'' @ a)\<close> d d' show ?thesis
        by (auto simp: e Let_def)
    next
      case False
      with eq \<open>f (p @ ''/'' @ a)\<close> d d' show ?thesis
        by (auto simp: e Let_def sameOutput_def split: option.splits sum.splits)
    qed
  qed
qed

lemma dump_filter:
  "sink st = sink st' \<Longrightarrow> visited st = visited st' \<Longrightarrow>
   sameOutput (dump n acc f p st) (dump n (withoutExcluded acc f) (\<lambda>_. True) p st')"
proof (induction n arbitrary: p st st')
  case 0
  then show ?case by (simp add: sameOutput_def)
next
  case (Suc n)
  let ?acc' = "withoutExcluded acc f"
  let ?st0 = "st\<lparr>visited := visited st @ [p]\<rparr>"
  let ?st0' = "st'\<lparr>visited := visited st' @ [p]\<rparr>"
  have acc': "lstat ?acc' = lstat acc" "readFile ?acc' = readFile acc" "readLink ?acc' = readLink acc"
    by (simp_all add: withoutExcluded_def)
  show ?case
  proof (cases "lstat acc p")
    case (Inl e)
    with Suc.prems show ?thesis by (simp add: acc' sameOutput_def)
  next
    case (Inr s)
    show ?thesis
    proof (cases "type s = tDirectory")
      case False
      with Inr Suc.prems show ?thesis
        by (auto simp: acc' Let_def sameOutput_def split: sum.splits)
    next
      case True
      show ?thesis
      proof (cases "readDirectory acc p")
        case (Inl e)
        with Inr True Suc.prems show ?thesis
          by (simp add: acc' Let_def sameOutput_def withoutExcluded_def)
      next
        case entries: (Inr es)
        let ?u = "map (\<lambda>n. (n, n)) (sorted_list_of_set (fst ` set es))"
        let ?st1 = "put ''directory'' (put ''type'' (put ''('' ?st0))"
        let ?st1' = "put ''directory'' (put ''type'' (put ''('' ?st0'))"
        have rd: "readDirectory ?acc' p = Inr (filter (\<lambda>(n, t). f (p @ ''/'' @ n)) es)"
          using entries by (simp add: withoutExcluded_def)
        have u': "unhack p (filter (\<lambda>(n, t). f (p @ ''/'' @ n)) es) [] =
                    Inr (filter (\<lambda>(a, b). f (p @ ''/'' @ a)) ?u)"
          unfolding unhack_keys keys_filter [of "\<lambda>n. f (p @ ''/'' @ n)" es]
            filter_dup [of "\<lambda>n. f (p @ ''/'' @ n)"] ..
        obtain r st2 where de: "dumpEntries n acc f p ?u ?st1 = (r, st2)"
          by (cases "dumpEntries n acc f p ?u ?st1")
        obtain r' st2' where de': "dumpEntries n ?acc' (\<lambda>_. True) p (filter (\<lambda>(a, b). f (p @ ''/'' @ a)) ?u) ?st1' = (r', st2')"
          by (cases "dumpEntries n ?acc' (\<lambda>_. True) p (filter (\<lambda>(a, b). f (p @ ''/'' @ a)) ?u) ?st1'")
        from dumpEntries_filter [of n acc f ?acc' ?st1 ?st1' p ?u, OF Suc.IH] Suc.prems de de'
        have eq: "r = r'" "sink st2 = sink st2'" "visited st2 = visited st2'"
          by (simp_all add: sameOutput_def)
        from Inr True entries rd u' de de' eq show ?thesis
          by (auto simp: acc' Let_def unhack_keys sameOutput_def split: option.splits sum.splits)
      qed
    qed
  qed
qed

end
